theory Spec2Isabelle
  imports Main
begin

section \<open>The deployment manifest store (activationStore.ts)\<close>

text \<open>
  A shallow embedding of \<^verbatim>\<open>src/extensions/mod_management/util/activationStore.ts\<close>:
  the manifest objects, the repair and upgrade of a parsed manifest, the fallback purge,
  the purge dialog, and the two entry points \<^verbatim>\<open>loadActivation\<close> and
  \<^verbatim>\<open>saveActivation\<close>.  A promise is the pair of its outcome (\<open>Inl\<close> a
  rejection, \<open>Inr\<close> the value) and the state of the world after it has settled.
\<close>

subsection \<open>JavaScript values and errors\<close>

text \<open>
  A field read from a parsed JSON document may be missing (\<open>Undefined\<close>), may be the
  JSON \<^verbatim>\<open>null\<close>, or may hold a value of the type that the interface declares.
\<close>

datatype 'a js = Undefined | Null | Val 'a

datatype error_class = ErrorClass | TypeErrorClass | SyntaxErrorClass | UserCanceledClass

text \<open>An error object: its class, its \<^verbatim>\<open>code\<close> property (absent on most) and its message.\<close>

datatype error = Err (cls: error_class) (code: "string option") (message: string)

definition TypeError :: "string \<Rightarrow> error" where
  "TypeError msg = Err TypeErrorClass None msg"

definition Error :: "string \<Rightarrow> error" where
  "Error msg = Err ErrorClass None msg"

text \<open>
  Modelled from the spec: the class \<^verbatim>\<open>UserCanceled\<close> of \<^verbatim>\<open>util/CustomErrors\<close>
  is not among the sources; the spec describes it as a control-flow signal that carries
  no data.  \<^verbatim>\<open>new UserCanceled()\<close> is an error of that class, without a code; no
  function of this file reads its message.
\<close>

definition UserCanceled :: error where
  "UserCanceled = Err UserCanceledClass None []"

text \<open>
  Modelled from the spec: \<^verbatim>\<open>util.truthy\<close> is not among the sources; the spec
  speaks of a field that is "falsy/absent".  The falsy values of JavaScript that a number
  field can hold are \<^verbatim>\<open>undefined\<close>, \<^verbatim>\<open>null\<close> and \<^verbatim>\<open>0\<close>; for a string
  field they are \<^verbatim>\<open>undefined\<close>, \<^verbatim>\<open>null\<close> and the empty string.
\<close>

fun truthy_number :: "int js \<Rightarrow> bool" where
  "truthy_number (Val n) = (n \<noteq> 0)"
| "truthy_number _ = False"

fun truthy_string :: "string js \<Rightarrow> bool" where
  "truthy_string (Val s) = (s \<noteq> [])"
| "truthy_string _ = False"

text \<open>\<^verbatim>\<open>v || d\<close> on a number field: the field when it is truthy, the default otherwise.\<close>

fun js_or :: "int js \<Rightarrow> int \<Rightarrow> int" where
  "js_or (Val n) d = (if n \<noteq> 0 then n else d)"
| "js_or _ d = d"

text \<open>
  \<^verbatim>\<open>v < n\<close> on a number field: \<^verbatim>\<open>undefined\<close> converts to NaN, which is below
  nothing, and \<^verbatim>\<open>null\<close> converts to \<^verbatim>\<open>0\<close>.
\<close>

fun js_less :: "int js \<Rightarrow> int \<Rightarrow> bool" where
  "js_less Undefined n = False"
| "js_less Null n = (0 < n)"
| "js_less (Val a) n = (a < n)"

text \<open>Decimal digits of a number, for the template strings of the error messages.\<close>

fun digits :: "nat \<Rightarrow> string" where
  "digits n = (if n < 10 then [''0123456789'' ! n] else digits (n div 10) @ [''0123456789'' ! (n mod 10)])"

declare digits.simps [simp del]

definition show_int :: "int \<Rightarrow> string" where
  "show_int i = (if i < 0 then CHR ''-'' # digits (nat (- i)) else digits (nat i))"

fun show_number :: "int js \<Rightarrow> string" where
  "show_number Undefined = ''undefined''"
| "show_number Null = ''null''"
| "show_number (Val n) = show_int n"

subsection \<open>Manifests\<close>

text \<open>
  \<^verbatim>\<open>IDeployedFile\<close>: the three fields that \<^verbatim>\<open>repairManifest\<close> tests against
  \<^verbatim>\<open>undefined\<close> and \<^verbatim>\<open>null\<close>.
\<close>

record deployed_file =
  relPath :: "string js"
  source :: "string js"
  time :: "int js"

text \<open>
  The \<^verbatim>\<open>files\<close> property of a parsed object: missing, \<^verbatim>\<open>null\<close>, a JSON value
  that is not an array (a number, a string, a boolean or an object, none of which has a
  \<^verbatim>\<open>reduce\<close> method), or an array whose entries are \<^verbatim>\<open>null\<close> (\<open>None\<close>) or
  objects.
\<close>

datatype files_field = NoFiles | NullFiles | NotAnArray | Files "deployed_file option list"

text \<open>
  The object that \<^verbatim>\<open>JSON.parse\<close> returns, before it has been checked.  A field
  that is present and not \<^verbatim>\<open>null\<close> has the type that \<^verbatim>\<open>IDeploymentManifest\<close>
  gives it (a number for the version, strings for the instance and the deployment
  method); documents that are not objects, and fields of other types, are outside the
  model.
\<close>

record parsed_manifest =
  p_version :: "int js"
  p_instance :: "string js"
  p_deploymentMethod :: "string js"
  p_files :: files_field

text \<open>
  \<^verbatim>\<open>IDeploymentManifest\<close> as \<^verbatim>\<open>repairManifest\<close> returns it: a version, an
  instance id, the optional deployment method and the list of deployed files.
\<close>

record manifest =
  version :: int
  instance' :: string
  deploymentMethod :: "string js"
  files :: "deployed_file list"

definition CURRENT_VERSION :: int where
  "CURRENT_VERSION = 1"

definition emptyManifest :: "string \<Rightarrow> manifest" where
  "emptyManifest inst =
     \<lparr>version = CURRENT_VERSION, instance' = inst, deploymentMethod = Undefined, files = []\<rparr>"

subsection \<open>repairManifest\<close>

text \<open>The test of the \<^verbatim>\<open>reduce\<close> callback, conjunct by conjunct.\<close>

fun keeps :: "deployed_file option \<Rightarrow> bool" where
  "keeps None = False"
| "keeps (Some file) =
     (relPath file \<noteq> Undefined \<and> relPath file \<noteq> Null
      \<and> source file \<noteq> Undefined \<and> source file \<noteq> Null
      \<and> time file \<noteq> Undefined \<and> time file \<noteq> Null)"

text \<open>The callback: push the entry onto the accumulator when it passes the test.\<close>

fun push_valid :: "deployed_file list \<Rightarrow> deployed_file option \<Rightarrow> deployed_file list" where
  "push_valid prev None = prev"
| "push_valid prev (Some file) = (if keeps (Some file) then prev @ [file] else prev)"

text \<open>
  \<^verbatim>\<open>input.files.reduce(...)\<close> throws a TypeError when \<^verbatim>\<open>input.files\<close> is
  \<^verbatim>\<open>undefined\<close> or \<^verbatim>\<open>null\<close> (no property can be read) and when it is another
  value without a \<^verbatim>\<open>reduce\<close> method.
\<close>

definition repairManifest :: "parsed_manifest \<Rightarrow> error + manifest" where
  "repairManifest input =
     (let v = (if \<not> truthy_number (p_version input) then CURRENT_VERSION
               else (case p_version input of Val n \<Rightarrow> n | _ \<Rightarrow> CURRENT_VERSION));
          i = (if \<not> truthy_string (p_instance input) then []
               else (case p_instance input of Val s \<Rightarrow> s | _ \<Rightarrow> []))
      in case p_files input of
           NoFiles \<Rightarrow> Inl (TypeError ''Cannot read property 'reduce' of undefined'')
         | NullFiles \<Rightarrow> Inl (TypeError ''Cannot read property 'reduce' of null'')
         | NotAnArray \<Rightarrow> Inl (TypeError ''input.files.reduce is not a function'')
         | Files fs \<Rightarrow>
             Inr \<lparr>version = v, instance' = i,
                  deploymentMethod = p_deploymentMethod input,
                  files = foldl push_valid [] fs\<rparr>)"

subsection \<open>readManifest\<close>

text \<open>
  The table \<^verbatim>\<open>formats\<close> has the single entry \<^verbatim>\<open>1: format_1\<close>.  The function
  \<^verbatim>\<open>format_1\<close> is not among the sources and is a parameter.
\<close>

definition formats ::
  "(parsed_manifest \<Rightarrow> error + parsed_manifest) \<Rightarrow> int \<Rightarrow>
   (parsed_manifest \<Rightarrow> error + parsed_manifest) option" where
  "formats format_1 k = (if k = 1 then Some format_1 else None)"

text \<open>
  The \<^verbatim>\<open>while\<close> loop of \<^verbatim>\<open>readManifest\<close>.  Calling a missing table entry
  throws a TypeError.  The loop need not end for every \<^verbatim>\<open>format_1\<close>; \<open>None\<close>
  is a run that never leaves it.
\<close>

partial_function (option) upgrade ::
  "(parsed_manifest \<Rightarrow> error + parsed_manifest) \<Rightarrow> int js \<Rightarrow> parsed_manifest \<Rightarrow>
   (error + parsed_manifest) option" where
  "upgrade format_1 lastVersion parsed =
     (if js_less lastVersion CURRENT_VERSION then
        (case formats format_1 (js_or (p_version parsed) 1) of
           None \<Rightarrow> Some (Inl (TypeError ''formats[(parsed.version || 1)] is not a function''))
         | Some fmt \<Rightarrow>
             (case fmt parsed of
                Inl e \<Rightarrow> Some (Inl e)
              | Inr parsed' \<Rightarrow>
                  if p_version parsed' = lastVersion \<and> js_less (p_version parsed') CURRENT_VERSION
                  then Some (Inl (Error (''unsupported format upgrade '' @ show_number (p_version parsed')
                                         @ '' -> '' @ show_int CURRENT_VERSION)))
                  else upgrade format_1 (p_version parsed') parsed'))
      else Some (Inr parsed))"

text \<open>
  \<^verbatim>\<open>readManifest\<close>, with \<^verbatim>\<open>JSON.parse\<close> a parameter: \<open>Inr None\<close> is the
  \<^verbatim>\<open>undefined\<close> returned for empty data.
\<close>

definition readManifest ::
  "(string \<Rightarrow> error + parsed_manifest) \<Rightarrow> (parsed_manifest \<Rightarrow> error + parsed_manifest) \<Rightarrow>
   string \<Rightarrow> (error + manifest option) option" where
  "readManifest parse format_1 data =
     (if data = [] then Some (Inr None)
      else case parse data of
             Inl e \<Rightarrow> Some (Inl e)
           | Inr parsed0 \<Rightarrow>
               (case upgrade format_1 (Val 0) parsed0 of
                  None \<Rightarrow> None
                | Some (Inl e) \<Rightarrow> Some (Inl e)
                | Some (Inr parsed) \<Rightarrow>
                    (let parsed1 = (if p_files parsed = NoFiles then parsed\<lparr>p_files := Files []\<rparr>
                                    else parsed)
                     in case repairManifest parsed1 of
                          Inl e \<Rightarrow> Some (Inl e)
                        | Inr m \<Rightarrow> Some (Inr (Some m)))))"

text \<open>
  Modelled from the spec: the function \<^verbatim>\<open>format_1\<close> of
  \<^verbatim>\<open>manifest_formats/format_1\<close> is not among the sources.  Version \<^verbatim>\<open>1\<close> is the
  baseline format, and the spec says that a manifest at version \<^verbatim>\<open>1\<close> is decoded
  "unchanged except repair normalization": the function returns the object it is given.
\<close>

definition format_1_spec :: "parsed_manifest \<Rightarrow> error + parsed_manifest" where
  "format_1_spec input = Inr input"

subsection \<open>The world: file system, dialog, registry\<close>

text \<open>
  Modelled from the spec: the wrappers of \<^verbatim>\<open>util/fs\<close> and \<^verbatim>\<open>writeFileAtomic\<close>
  are not among the sources.  The spec asks of the file system "stat, read-file,
  atomic-write-file, delete-file, each as asynchronous operations classifying not-found
  distinctly from other failures".  The disk maps a path to a file with its content and
  modification time; a fault table lets every operation on every path fail with an error
  of any code.  The state also keeps the trace of the effects in the order they happen.
\<close>

record file_node =
  content :: string
  mtime :: int

datatype fs_op = ReadOp | StatOp | UnlinkOp | RemoveOp | WriteOp

datatype dialog_text = QueryPurgeTextSafe | QueryPurgeTextUnsafe

datatype event =
    ReadFile string
  | StatFile string
  | UnlinkFile string
  | RemoveFile string
  | WriteFile string string
  | ShowDialog dialog_text
  | ShowErrorNotification string error

record world =
  disk :: "string \<rightharpoonup> file_node"
  trace :: "event list"

text \<open>\<^verbatim>\<open>IDeploymentMethod\<close>: the two properties this file reads.\<close>

record deployment_method =
  method_id :: string
  isFallbackPurgeSafe :: bool

text \<open>
  The collaborators: \<^verbatim>\<open>JSON.parse\<close> and \<^verbatim>\<open>JSON.stringify\<close>, the function
  \<^verbatim>\<open>format_1\<close>, the registry lookup \<^verbatim>\<open>getActivator\<close>, the instance id in the
  application state, the outcome of the dialog promise for each of the two texts
  (\<open>Inl\<close> a rejection, \<open>Inr\<close> the label of the chosen action), the fault table,
  the time stamp given to a written file, and \<^verbatim>\<open>path.join\<close> of Node on a
  directory and a relative name.
\<close>

record env =
  json_parse :: "string \<Rightarrow> error + parsed_manifest"
  json_stringify :: "manifest \<Rightarrow> string"
  format_1 :: "parsed_manifest \<Rightarrow> error + parsed_manifest"
  getActivator :: "string js \<Rightarrow> deployment_method option"
  instanceId :: string
  showDialog :: "dialog_text \<Rightarrow> error + string"
  fault :: "fs_op \<Rightarrow> string \<Rightarrow> error option"
  clock :: int
  path_join :: "string \<Rightarrow> string \<Rightarrow> string"

definition record_event :: "event \<Rightarrow> world \<Rightarrow> world" where
  "record_event ev w = w\<lparr>trace := trace w @ [ev]\<rparr>"

definition ENOENT :: "string \<Rightarrow> error" where
  "ENOENT p = Err ErrorClass (Some ''ENOENT'') (''ENOENT: no such file or directory, '' @ p)"

definition readFileAsync :: "env \<Rightarrow> string \<Rightarrow> world \<Rightarrow> (error + string) \<times> world" where
  "readFileAsync E p w =
     (let w' = record_event (ReadFile p) w
      in case fault E ReadOp p of
           Some e \<Rightarrow> (Inl e, w')
         | None \<Rightarrow> (case disk w p of
                      None \<Rightarrow> (Inl (ENOENT p), w')
                    | Some f \<Rightarrow> (Inr (content f), w')))"

definition statAsync :: "env \<Rightarrow> string \<Rightarrow> world \<Rightarrow> (error + int) \<times> world" where
  "statAsync E p w =
     (let w' = record_event (StatFile p) w
      in case fault E StatOp p of
           Some e \<Rightarrow> (Inl e, w')
         | None \<Rightarrow> (case disk w p of
                      None \<Rightarrow> (Inl (ENOENT p), w')
                    | Some f \<Rightarrow> (Inr (mtime f), w')))"

definition unlinkAsync :: "env \<Rightarrow> string \<Rightarrow> world \<Rightarrow> (error + unit) \<times> world" where
  "unlinkAsync E p w =
     (let w' = record_event (UnlinkFile p) w
      in case fault E UnlinkOp p of
           Some e \<Rightarrow> (Inl e, w')
         | None \<Rightarrow> (case disk w p of
                      None \<Rightarrow> (Inl (ENOENT p), w')
                    | Some f \<Rightarrow> (Inr (), w'\<lparr>disk := (disk w)(p := None)\<rparr>)))"

definition removeAsync :: "env \<Rightarrow> string \<Rightarrow> world \<Rightarrow> (error + unit) \<times> world" where
  "removeAsync E p w =
     (let w' = record_event (RemoveFile p) w
      in case fault E RemoveOp p of
           Some e \<Rightarrow> (Inl e, w')
         | None \<Rightarrow> (case disk w p of
                      None \<Rightarrow> (Inl (ENOENT p), w')
                    | Some f \<Rightarrow> (Inr (), w'\<lparr>disk := (disk w)(p := None)\<rparr>)))"

definition writeFileAtomic :: "env \<Rightarrow> string \<Rightarrow> string \<Rightarrow> world \<Rightarrow> (error + unit) \<times> world" where
  "writeFileAtomic E p data w =
     (let w' = record_event (WriteFile p data) w
      in case fault E WriteOp p of
           Some e \<Rightarrow> (Inl e, w')
         | None \<Rightarrow> (Inr (), w'\<lparr>disk := (disk w)(p \<mapsto> \<lparr>content = data, mtime = clock E\<rparr>)\<rparr>))"

definition typeTag :: "string option \<Rightarrow> string" where
  "typeTag modType =
     (case modType of
        None \<Rightarrow> []
      | Some t \<Rightarrow> if length t > 0 then t @ ''.'' else [])"

definition tagFile :: "env \<Rightarrow> string \<Rightarrow> string option \<Rightarrow> string" where
  "tagFile E dir modType = path_join E dir (''vortex.deployment.'' @ typeTag modType @ ''json'')"

subsection \<open>fallbackPurge\<close>

text \<open>
  The first statement of the mapper: \<^verbatim>\<open>path.join\<close> throws a TypeError on a
  \<^verbatim>\<open>relPath\<close> that is not a string.
\<close>

definition fullPathOf :: "env \<Rightarrow> string \<Rightarrow> deployed_file \<Rightarrow> error + string" where
  "fullPathOf E basePath file =
     (case relPath file of
        Val rel \<Rightarrow> Inr (path_join E basePath rel)
      | _ \<Rightarrow> Inl (TypeError ''Path must be a string''))"

text \<open>
  \<^verbatim>\<open>Promise.map\<close> calls the mapper on the files in the order of the list, in one
  turn, before any operation completes: each call computes the path and starts the stat.
  A mapper that throws rejects the promise at once, and the mapper is not called on the
  files after it.  The result is, for every file whose stat was started, the file, its
  path and the outcome of its stat, and the error thrown, if any.
\<close>

fun startStats ::
  "env \<Rightarrow> string \<Rightarrow> deployed_file list \<Rightarrow> world \<Rightarrow>
   ((deployed_file \<times> string \<times> (error + int)) list \<times> error option) \<times> world" where
  "startStats E basePath [] w = (([], None), w)"
| "startStats E basePath (file # rest) w =
     (case fullPathOf E basePath file of
        Inl err \<Rightarrow> (([], Some err), w)
      | Inr fullPath \<Rightarrow>
          (case statAsync E fullPath w of
             (stats, w1) \<Rightarrow>
               (case startStats E basePath rest w1 of
                  ((others, thrown), w2) \<Rightarrow> (((file, fullPath, stats) # others, thrown), w2))))"

text \<open>
  The \<^verbatim>\<open>catch\<close> callback of the mapper: an error whose code is not
  \<^verbatim>\<open>ENOENT\<close> is rejected again (\<open>Some\<close>), any other is ignored (\<open>None\<close>).
\<close>

definition rejectUnlessNotFound :: "error \<Rightarrow> error option" where
  "rejectUnlessNotFound err = (if code err \<noteq> Some ''ENOENT'' then Some err else None)"

text \<open>
  The files whose stat failed skip the \<^verbatim>\<open>then\<close> callback and reach the
  \<^verbatim>\<open>catch\<close>: their rejections, in the order of the list.
\<close>

fun statRejections :: "(deployed_file \<times> string \<times> (error + int)) list \<Rightarrow> error list" where
  "statRejections [] = []"
| "statRejections ((file, fullPath, stats) # others) =
     (case stats of
        Inl err \<Rightarrow> (case rejectUnlessNotFound err of Some e \<Rightarrow> [e] | None \<Rightarrow> [])
      | Inr t \<Rightarrow> [])
     @ statRejections others"

text \<open>
  The \<^verbatim>\<open>then\<close> callbacks of the files whose stat succeeded, in the order of the
  list: the file is unlinked when the time of the stat is the recorded time, and an error
  of the unlink reaches the same \<^verbatim>\<open>catch\<close>.  The result is the rejections of the
  unlinks, in the order of the list.
\<close>

fun unlinkMatching ::
  "env \<Rightarrow> (deployed_file \<times> string \<times> (error + int)) list \<Rightarrow> world \<Rightarrow> error list \<times> world" where
  "unlinkMatching E [] w = ([], w)"
| "unlinkMatching E ((file, fullPath, stats) # others) w =
     (case stats of
        Inl err \<Rightarrow> unlinkMatching E others w
      | Inr t \<Rightarrow>
          if Val t = time file then
            (case unlinkAsync E fullPath w of
               (r, w1) \<Rightarrow>
                 (case unlinkMatching E others w1 of
                    (es, w2) \<Rightarrow>
                      ((case r of
                          Inl err \<Rightarrow> (case rejectUnlessNotFound err of Some e \<Rightarrow> [e] | None \<Rightarrow> [])
                        | Inr u \<Rightarrow> [])
                       @ es, w2)))
          else unlinkMatching E others w)"

text \<open>
  \<^verbatim>\<open>fallbackPurge\<close>.  The operations of the file system complete in the order in
  which they were started: the stats were all started in the first turn, and an unlink is
  started only when its stat has completed, so every stat completes before the first
  unlink does.  The rejections therefore arrive in this order: the error thrown by a
  mapper, the rejections of the stats, the rejections of the unlinks.  The promise of
  \<^verbatim>\<open>Promise.map\<close> is rejected with the first of them and resolves when there is
  none; the operations of the other files run in either case.
\<close>

definition fallbackPurge :: "env \<Rightarrow> string \<Rightarrow> deployed_file list \<Rightarrow> world \<Rightarrow> (error + unit) \<times> world" where
  "fallbackPurge E basePath fs w =
     (case startStats E basePath fs w of
        ((started, thrown), w1) \<Rightarrow>
          (case unlinkMatching E started w1 of
             (unlinkRejections, w2) \<Rightarrow>
               (case (case thrown of Some err \<Rightarrow> [err] | None \<Rightarrow> [])
                     @ statRejections started @ unlinkRejections of
                  [] \<Rightarrow> (Inr (), w2)
                | err # later \<Rightarrow> (Inl err, w2))))"

subsection \<open>queryPurge\<close>

definition queryPurge ::
  "env \<Rightarrow> string \<Rightarrow> deployed_file list \<Rightarrow> bool \<Rightarrow> world \<Rightarrow> (error + unit) \<times> world" where
  "queryPurge E basePath fs safe w =
     (let text = (if safe then QueryPurgeTextSafe else QueryPurgeTextUnsafe);
          w1 = record_event (ShowDialog text) w
      in case showDialog E text of
           Inl err \<Rightarrow> (Inl err, w1)
         | Inr action \<Rightarrow>
             if action = ''Purge'' then
               (case fallbackPurge E basePath fs w1 of
                  (Inl err, w2) \<Rightarrow>
                    (Inl UserCanceled, record_event (ShowErrorNotification ''Purging failed'' err) w2)
                | (Inr u, w2) \<Rightarrow> (Inr (), w2))
             else (Inl UserCanceled, w1))"

subsection \<open>saveActivation\<close>

text \<open>
  The serialised object is re-parsed; a failure of the re-parse rejects before the disk
  is touched.  With no files the manifest file is removed and the \<^verbatim>\<open>catch\<close> of the
  removal takes every error.
\<close>

definition saveActivation ::
  "env \<Rightarrow> string option \<Rightarrow> string \<Rightarrow> string \<Rightarrow> deployed_file list \<Rightarrow> string \<Rightarrow> world \<Rightarrow>
   (error + unit) \<times> world" where
  "saveActivation E modType inst gamePath activation activatorId w =
     (let tag = tagFile E gamePath modType;
          data = json_stringify E \<lparr>version = CURRENT_VERSION, instance' = inst,
                                   deploymentMethod = Val activatorId, files = activation\<rparr>
      in case json_parse E data of
           Inl err \<Rightarrow>
             (Inl (Error (''failed to serialize deployment information: \"'' @ message err @ ''\"'')), w)
         | Inr reparsed \<Rightarrow>
             if length activation = 0 then
               (case removeAsync E tag w of (r, w') \<Rightarrow> (Inr (), w'))
             else writeFileAtomic E tag data w)"

subsection \<open>loadActivation\<close>

text \<open>
  The first half of the promise chain: read the file, decode it, and in the
  \<^verbatim>\<open>catch\<close> turn an error with code \<^verbatim>\<open>ENOENT\<close> into the empty manifest and
  any other error into one whose message names the file.
\<close>

definition readTagObject :: "env \<Rightarrow> string \<Rightarrow> world \<Rightarrow> ((error + manifest option) \<times> world) option" where
  "readTagObject E tag w =
     (case readFileAsync E tag w of
        (r, w1) \<Rightarrow>
          (case (case r of Inl err \<Rightarrow> Some (Inl err)
                         | Inr data \<Rightarrow> readManifest (json_parse E) (format_1 E) data) of
             None \<Rightarrow> None
           | Some (Inr tagObject) \<Rightarrow> Some (Inr tagObject, w1)
           | Some (Inl err) \<Rightarrow>
               if code err = Some ''ENOENT'' then Some (Inr (Some (emptyManifest (instanceId E))), w1)
               else Some (Inl (Error (message err @ ''.'' @ [CHR 0x0A] @ ''*** When you report this, ''
                                      @ ''please include the file \"'' @ tag @ '' ***\"'')), w1)))"

text \<open>
  The flag \<^verbatim>\<open>safe\<close>: it starts \<^verbatim>\<open>true\<close> and is cleared when the manifest names a
  deployment method, the registry knows it and it is not fallback-purge-safe.
\<close>

definition purgeIsSafe :: "env \<Rightarrow> manifest \<Rightarrow> bool" where
  "purgeIsSafe E tagObject =
     (if deploymentMethod tagObject \<noteq> Undefined then
        (case getActivator E (deploymentMethod tagObject) of
           None \<Rightarrow> True
         | Some previousActivator \<Rightarrow> if \<not> isFallbackPurgeSafe previousActivator then False else True)
      else True)"

text \<open>The second half: the callback that receives the tag object.\<close>

text \<open>
  Its first statement: an \<^verbatim>\<open>undefined\<close> tag object is replaced by the empty manifest
  of the current instance.
\<close>

definition tagObjectOrEmpty :: "env \<Rightarrow> manifest option \<Rightarrow> manifest" where
  "tagObjectOrEmpty E tagObject0 =
     (case tagObject0 of None \<Rightarrow> emptyManifest (instanceId E) | Some m \<Rightarrow> m)"

definition resolveTagObject ::
  "env \<Rightarrow> string option \<Rightarrow> string \<Rightarrow> deployment_method \<Rightarrow> manifest option \<Rightarrow> world \<Rightarrow>
   (error + deployed_file list) \<times> world" where
  "resolveTagObject E modType modPath activator tagObject0 w =
     (let tagObject = tagObjectOrEmpty E tagObject0
      in if instance' tagObject \<noteq> instanceId E \<and> length (files tagObject) > 0 then
           (case queryPurge E modPath (files tagObject) (purgeIsSafe E tagObject) w of
              (Inl err, w1) \<Rightarrow> (Inl err, w1)
            | (Inr u, w1) \<Rightarrow>
                (case saveActivation E modType (instanceId E) modPath [] (method_id activator) w1 of
                   (Inl err, w2) \<Rightarrow> (Inl err, w2)
                 | (Inr u', w2) \<Rightarrow> (Inr [], w2)))
         else (Inr (files tagObject), w))"

definition loadActivation ::
  "env \<Rightarrow> string option \<Rightarrow> string option \<Rightarrow> deployment_method \<Rightarrow> world \<Rightarrow>
   ((error + deployed_file list) \<times> world) option" where
  "loadActivation E modType modPath0 activator w =
     (case modPath0 of
        None \<Rightarrow> Some (Inr [], w)
      | Some modPath \<Rightarrow>
          (case readTagObject E (tagFile E modPath modType) w of
             None \<Rightarrow> None
           | Some (Inl err, w1) \<Rightarrow> Some (Inl err, w1)
           | Some (Inr tagObject, w1) \<Rightarrow>
               Some (resolveTagObject E modType modPath activator tagObject w1)))"

subsection \<open>The words of the specification\<close>

text \<open>
  A record violates the invariant of a deployed file when it is \<^verbatim>\<open>null\<close> or when one
  of \<^verbatim>\<open>relPath\<close>, \<^verbatim>\<open>source\<close> and \<^verbatim>\<open>time\<close> is absent or \<^verbatim>\<open>null\<close>
  (each is "required, non-null").
\<close>

definition missing :: "'a js \<Rightarrow> bool" where
  "missing v = (v = Undefined \<or> v = Null)"

definition invalid_record :: "deployed_file option \<Rightarrow> bool" where
  "invalid_record r =
     (case r of
        None \<Rightarrow> True
      | Some file \<Rightarrow> missing (relPath file) \<or> missing (source file) \<or> missing (time file))"

text \<open>
  The words of the fallback purge.  The file of a record is at the target directory
  joined with its \<^verbatim>\<open>relPath\<close>, for a record whose \<^verbatim>\<open>relPath\<close> is a string.
\<close>

definition target :: "env \<Rightarrow> string \<Rightarrow> deployed_file \<Rightarrow> string" where
  "target E basePath file =
     (case relPath file of Val rel \<Rightarrow> path_join E basePath rel | _ \<Rightarrow> [])"

text \<open>
  The file of a record exists and its modification time equals the recorded time: the
  stat, in the world in which the purge starts, succeeds with that time.
\<close>

definition time_matches :: "env \<Rightarrow> string \<Rightarrow> world \<Rightarrow> deployed_file \<Rightarrow> bool" where
  "time_matches E basePath w file =
     (case fst (statAsync E (target E basePath file) w) of
        Inl err \<Rightarrow> False
      | Inr t \<Rightarrow> time file = Val t)"

text \<open>The error, other than not-found, with which the stat of a record fails.\<close>

definition stat_failure :: "env \<Rightarrow> string \<Rightarrow> world \<Rightarrow> deployed_file \<Rightarrow> error option" where
  "stat_failure E basePath w file =
     (case fst (statAsync E (target E basePath file) w) of
        Inl err \<Rightarrow> if code err \<noteq> Some ''ENOENT'' then Some err else None
      | Inr t \<Rightarrow> None)"

text \<open>
  The error, other than not-found, with which the deletion of a record fails: the time
  matches and the unlink of the path meets a fault with another code.
\<close>

definition unlink_failure :: "env \<Rightarrow> string \<Rightarrow> world \<Rightarrow> deployed_file \<Rightarrow> error option" where
  "unlink_failure E basePath w file =
     (if time_matches E basePath w file then
        (case fault E UnlinkOp (target E basePath file) of
           Some err \<Rightarrow> if code err \<noteq> Some ''ENOENT'' then Some err else None
         | None \<Rightarrow> None)
      else None)"

text \<open>
  The per-file errors other than not-found, in the order in which they arrive: those of
  the stats, then those of the deletions, each in the order of the list.
\<close>

definition per_file_errors :: "env \<Rightarrow> string \<Rightarrow> world \<Rightarrow> deployed_file list \<Rightarrow> error list" where
  "per_file_errors E basePath w fs =
     List.map_filter (stat_failure E basePath w) fs
     @ List.map_filter (unlink_failure E basePath w) fs"

text \<open>
  A path is purged when a record of the list names it, the time of that record matches,
  and the unlink of the path meets no fault.
\<close>

definition purged :: "env \<Rightarrow> string \<Rightarrow> world \<Rightarrow> deployed_file list \<Rightarrow> string \<Rightarrow> bool" where
  "purged E basePath w fs p =
     (\<exists>file \<in> set fs. target E basePath file = p \<and> time_matches E basePath w file
        \<and> fault E UnlinkOp p = None)"

text \<open>The dialogs that have been shown, in order, read off the trace.\<close>

fun is_dialog :: "event \<Rightarrow> bool" where
  "is_dialog (ShowDialog text) = True"
| "is_dialog _ = False"

definition dialogs_shown :: "world \<Rightarrow> event list" where
  "dialogs_shown w = filter is_dialog (trace w)"

subsection \<open>A concrete game directory\<close>

text \<open>
  A manifest written by the instance \<^verbatim>\<open>other\<close> that lists \<^verbatim>\<open>a.esp\<close> (on disk
  with the recorded time), a \<^verbatim>\<open>null\<close> entry, a record without a source, and
  \<^verbatim>\<open>b.esp\<close> (on disk with a later time).
\<close>

definition ex_file_a :: deployed_file where
  "ex_file_a = \<lparr>relPath = Val ''a.esp'', source = Val ''modA'', time = Val 100\<rparr>"

definition ex_file_b :: deployed_file where
  "ex_file_b = \<lparr>relPath = Val ''b.esp'', source = Val ''modB'', time = Val 50\<rparr>"

definition ex_file_bad :: deployed_file where
  "ex_file_bad = \<lparr>relPath = Val ''c.esp'', source = Null, time = Val 1\<rparr>"

definition ex_parsed :: parsed_manifest where
  "ex_parsed =
     \<lparr>p_version = Val 1, p_instance = Val ''other'', p_deploymentMethod = Undefined,
      p_files = Files [Some ex_file_a, None, Some ex_file_bad, Some ex_file_b]\<rparr>"

definition ex_manifest :: manifest where
  "ex_manifest =
     \<lparr>version = 1, instance' = ''other'', deploymentMethod = Undefined,
      files = [ex_file_a, ex_file_b]\<rparr>"

definition ex_world :: world where
  "ex_world =
     \<lparr>disk = [''/game/vortex.deployment.json'' \<mapsto> \<lparr>content = ''{manifest}'', mtime = 100\<rparr>,
              ''/game/a.esp'' \<mapsto> \<lparr>content = ''A'', mtime = 100\<rparr>,
              ''/game/b.esp'' \<mapsto> \<lparr>content = ''B'', mtime = 70\<rparr>],
      trace = []\<rparr>"

text \<open>
  An environment whose user answers the dialog with the given label, in the instance
  \<^verbatim>\<open>here\<close>, with an identity \<^verbatim>\<open>format_1\<close>, an empty registry, no faults, and paths joined
  with a slash.
\<close>

definition ex_env :: "string \<Rightarrow> env" where
  "ex_env answer =
     \<lparr>json_parse = (\<lambda>data. Inr ex_parsed),
      json_stringify = (\<lambda>m. ''{manifest}''),
      format_1 = Inr,
      getActivator = (\<lambda>method. None),
      instanceId = ''here'',
      showDialog = (\<lambda>text. Inr answer),
      fault = (\<lambda>op p. None),
      clock = 0,
      path_join = (\<lambda>dir name. dir @ ''/'' @ name)\<rparr>"

definition ex_activator :: deployment_method where
  "ex_activator = \<lparr>method_id = ''hardlink_activator'', isFallbackPurgeSafe = True\<rparr>"

definition EPERM :: error where
  "EPERM = Err ErrorClass (Some ''EPERM'') ''EPERM: operation not permitted''"

definition ex_file_gone :: deployed_file where
  "ex_file_gone = \<lparr>relPath = Val ''gone.esp'', source = Val ''modA'', time = Val 100\<rparr>"

definition ex_env_locked :: env where
  "ex_env_locked = (ex_env ''Purge'')\<lparr>fault := (\<lambda>op p. if op = UnlinkOp then Some EPERM else None)\<rparr>"

text \<open>
  A record under a path that is not a directory, and an environment in which the unlink
  of \<^verbatim>\<open>a.esp\<close> fails with \<^verbatim>\<open>EPERM\<close> and the stat of that record fails with
  \<^verbatim>\<open>ENOTDIR\<close>.
\<close>

definition ENOTDIR :: error where
  "ENOTDIR = Err ErrorClass (Some ''ENOTDIR'') ''ENOTDIR: not a directory''"

definition ex_file_x :: deployed_file where
  "ex_file_x = \<lparr>relPath = Val ''data/x.esp'', source = Val ''modX'', time = Val 7\<rparr>"

definition ex_env_faulty :: env where
  "ex_env_faulty =
     (ex_env ''Purge'')
       \<lparr>fault := (\<lambda>op p. if op = UnlinkOp \<and> p = ''/game/a.esp'' then Some EPERM
                         else if op = StatOp \<and> p = ''/game/data/x.esp'' then Some ENOTDIR
                         else None)\<rparr>"

text \<open>The text that \<^verbatim>\<open>loadActivation\<close> appends to the message of a read or decode error.\<close>

definition report_hint :: "string \<Rightarrow> string" where
  "report_hint tag =
     ''.'' @ [CHR 0x0A] @ ''*** When you report this, please include the file \"'' @ tag @ '' ***\"''"

text \<open>
  The same directory when the manifest names the method \<^verbatim>\<open>move_activator\<close>, which
  the registry knows and does not mark as fallback-purge-safe.
\<close>

definition ex_env_unsafe :: env where
  "ex_env_unsafe =
     (ex_env ''Cancel'')
       \<lparr>json_parse := (\<lambda>data. Inr (ex_parsed\<lparr>p_deploymentMethod := Val ''move_activator''\<rparr>)),
        getActivator := (\<lambda>method. if method = Val ''move_activator''
                          then Some \<lparr>method_id = ''move_activator'', isFallbackPurgeSafe = False\<rparr>
                          else None)\<rparr>"

section \<open>Properties\<close>

subsection \<open>Effects of the operations on the trace and the disk\<close>

lemma disk_record_event: "disk (record_event ev w) = disk w"
  by (simp add: record_event_def)

lemma trace_record_event: "trace (record_event ev w) = trace w @ [ev]"
  by (simp add: record_event_def)

lemma readFileAsync_world: "snd (readFileAsync E p w) = record_event (ReadFile p) w"
  by (simp add: readFileAsync_def Let_def split: option.splits)

lemma statAsync_world: "snd (statAsync E p w) = record_event (StatFile p) w"
  by (simp add: statAsync_def Let_def split: option.splits)

lemma unlinkAsync_trace: "trace (snd (unlinkAsync E p w)) = trace w @ [UnlinkFile p]"
  by (simp add: unlinkAsync_def Let_def record_event_def split: option.splits)

lemma removeAsync_trace: "trace (snd (removeAsync E p w)) = trace w @ [RemoveFile p]"
  by (simp add: removeAsync_def Let_def record_event_def split: option.splits)

lemma writeFileAtomic_trace: "trace (snd (writeFileAtomic E p d w)) = trace w @ [WriteFile p d]"
  by (simp add: writeFileAtomic_def Let_def record_event_def split: option.splits)

lemma statAsync_result: "statAsync E p w = (fst (statAsync E p w), record_event (StatFile p) w)"
  using statAsync_world [of E p w] by (cases "statAsync E p w") simp

lemma statAsync_disk: "disk (snd (statAsync E p w)) = disk w"
  by (simp add: statAsync_world disk_record_event)

lemma startStats_thrown:
  assumes "fullPathOf E b f = Inl err"
  shows "startStats E b (f # fs) w = (([], Some err), w)"
  using assms by simp

lemma startStats_Cons:
  assumes "fullPathOf E b f = Inr p" and "startStats E b fs (record_event (StatFile p) w) = ((others, th), w2)"
  shows "startStats E b (f # fs) w = (((f, p, fst (statAsync E p w)) # others, th), w2)"
proof -
  obtain st w1 where s: "statAsync E p w = (st, w1)" by (cases "statAsync E p w")
  with statAsync_result [of E p w] have "w1 = record_event (StatFile p) w" by simp
  with assms s show ?thesis by simp
qed

lemma startStats_dialogs: "dialogs_shown (snd (startStats E b fs w)) = dialogs_shown w"
proof (induction fs arbitrary: w)
  case Nil
  then show ?case by simp
next
  case (Cons f fs)
  show ?case
  proof (cases "fullPathOf E b f")
    case (Inl err)
    then show ?thesis by (simp add: startStats_thrown)
  next
    case (Inr p)
    let ?w1 = "record_event (StatFile p) w"
    obtain others th w2 where s: "startStats E b fs ?w1 = ((others, th), w2)"
      by (cases "startStats E b fs ?w1") auto
    have "dialogs_shown ?w1 = dialogs_shown w"
      by (simp add: dialogs_shown_def trace_record_event)
    with Cons.IH [of ?w1] s have "dialogs_shown w2 = dialogs_shown w" by simp
    with startStats_Cons [OF Inr s] show ?thesis by simp
  qed
qed

lemma unlinkMatching_stat_failed:
  "unlinkMatching E ((f, p, Inl err) # others) w = unlinkMatching E others w"
  by simp

lemma unlinkMatching_time_differs:
  assumes "time f \<noteq> Val t"
  shows "unlinkMatching E ((f, p, Inr t) # others) w = unlinkMatching E others w"
  using assms by auto

lemma unlinkMatching_time_equal:
  assumes "time f = Val t" and "unlinkAsync E p w = (r, w1)" and "unlinkMatching E others w1 = (es, w2)"
  shows "unlinkMatching E ((f, p, Inr t) # others) w =
           ((case r of
               Inl err \<Rightarrow> (case rejectUnlessNotFound err of Some e \<Rightarrow> [e] | None \<Rightarrow> [])
             | Inr u \<Rightarrow> [])
            @ es, w2)"
  using assms by simp

declare startStats.simps(2) [simp del] and unlinkMatching.simps(2) [simp del]

lemma unlinkMatching_dialogs: "dialogs_shown (snd (unlinkMatching E ss w)) = dialogs_shown w"
proof (induction ss arbitrary: w)
  case Nil
  then show ?case by simp
next
  case (Cons s ss)
  obtain f p st where s: "s = (f, p, st)" by (cases s)
  show ?case
  proof (cases st)
    case (Inl err)
    with s Cons.IH [of w] show ?thesis by (simp add: unlinkMatching_stat_failed)
  next
    case (Inr t)
    show ?thesis
    proof (cases "time f = Val t")
      case False
      with s Inr Cons.IH [of w] show ?thesis by (simp add: unlinkMatching_time_differs)
    next
      case True
      obtain r w1 where u: "unlinkAsync E p w = (r, w1)" by (cases "unlinkAsync E p w")
      obtain es w2 where m: "unlinkMatching E ss w1 = (es, w2)" by (cases "unlinkMatching E ss w1")
      have "trace w1 = trace w @ [UnlinkFile p]" using unlinkAsync_trace [of E p w] u by simp
      then have "dialogs_shown w1 = dialogs_shown w" by (simp add: dialogs_shown_def)
      with Cons.IH [of w1] m have "dialogs_shown w2 = dialogs_shown w" by simp
      with unlinkMatching_time_equal [OF True u m] s Inr show ?thesis by simp
    qed
  qed
qed

lemma fallbackPurge_world:
  "snd (fallbackPurge E b fs w)
     = snd (unlinkMatching E (fst (fst (startStats E b fs w))) (snd (startStats E b fs w)))"
  by (simp add: fallbackPurge_def split: prod.splits list.splits)

lemma fallbackPurge_dialogs: "dialogs_shown (snd (fallbackPurge E b fs w)) = dialogs_shown w"
  by (simp add: fallbackPurge_world unlinkMatching_dialogs startStats_dialogs)

lemma saveActivation_reparse_failed:
  assumes "json_parse E (json_stringify E \<lparr>version = CURRENT_VERSION, instance' = i,
             deploymentMethod = Val aid, files = a\<rparr>) = Inl err"
  shows "saveActivation E mt i g a aid w =
           (Inl (Error (''failed to serialize deployment information: \"'' @ message err @ ''\"'')), w)"
  using assms by (simp add: saveActivation_def Let_def)

lemma saveActivation_empty:
  assumes "json_parse E (json_stringify E \<lparr>version = CURRENT_VERSION, instance' = i,
             deploymentMethod = Val aid, files = []\<rparr>) = Inr reparsed"
  shows "saveActivation E mt i g [] aid w = (Inr (), snd (removeAsync E (tagFile E g mt) w))"
  using assms by (simp add: saveActivation_def Let_def split: prod.splits)

lemma saveActivation_nonempty:
  assumes "json_parse E (json_stringify E \<lparr>version = CURRENT_VERSION, instance' = i,
             deploymentMethod = Val aid, files = a\<rparr>) = Inr reparsed" and "a \<noteq> []"
  shows "saveActivation E mt i g a aid w =
           writeFileAtomic E (tagFile E g mt) (json_stringify E \<lparr>version = CURRENT_VERSION,
             instance' = i, deploymentMethod = Val aid, files = a\<rparr>) w"
  using assms by (simp add: saveActivation_def Let_def)

lemma saveActivation_dialogs: "dialogs_shown (snd (saveActivation E mt i g a aid w)) = dialogs_shown w"
proof (cases "json_parse E (json_stringify E \<lparr>version = CURRENT_VERSION, instance' = i,
             deploymentMethod = Val aid, files = a\<rparr>)")
  case (Inl err)
  then show ?thesis by (simp add: saveActivation_reparse_failed)
next
  case (Inr reparsed)
  show ?thesis
  proof (cases "a = []")
    case True
    with Inr removeAsync_trace [of E "tagFile E g mt" w] show ?thesis
      by (simp add: saveActivation_empty dialogs_shown_def)
  next
    case False
    with Inr writeFileAtomic_trace [of E "tagFile E g mt" _ w] show ?thesis
      by (simp add: saveActivation_nonempty dialogs_shown_def)
  qed
qed

lemma queryPurge_dialogs:
  "dialogs_shown (snd (queryPurge E b fs safe w))
     = dialogs_shown w @ [ShowDialog (if safe then QueryPurgeTextSafe else QueryPurgeTextUnsafe)]"
proof -
  let ?t = "if safe then QueryPurgeTextSafe else QueryPurgeTextUnsafe"
  let ?w1 = "record_event (ShowDialog ?t) w"
  have w1: "dialogs_shown ?w1 = dialogs_shown w @ [ShowDialog ?t]"
    by (simp add: dialogs_shown_def trace_record_event)
  have fp: "dialogs_shown (snd (fallbackPurge E b fs ?w1)) = dialogs_shown w @ [ShowDialog ?t]"
    using fallbackPurge_dialogs [of E b fs ?w1] w1 by simp
  show ?thesis
  proof (cases "showDialog E ?t")
    case (Inl e)
    with w1 show ?thesis by (simp add: queryPurge_def Let_def)
  next
    case (Inr action)
    show ?thesis
    proof (cases "action = ''Purge''")
      case False
      with Inr w1 show ?thesis by (simp add: queryPurge_def Let_def)
    next
      case True
      obtain r w2 where f: "fallbackPurge E b fs ?w1 = (r, w2)" by (cases "fallbackPurge E b fs ?w1")
      with fp have "dialogs_shown w2 = dialogs_shown w @ [ShowDialog ?t]" by simp
      with Inr True f show ?thesis
        by (cases r) (simp_all add: queryPurge_def Let_def dialogs_shown_def trace_record_event)
    qed
  qed
qed

subsection \<open>repairManifest\<close>

lemma keeps_iff: "keeps r = (\<not> invalid_record r)"
  by (cases r) (auto simp: invalid_record_def missing_def)

lemma foldl_push_valid: "map Some (foldl push_valid acc fs) = map Some acc @ filter keeps fs"
proof (induction fs arbitrary: acc)
  case Nil
  then show ?case by simp
next
  case (Cons r rs)
  show ?case
  proof (cases r)
    case None
    then show ?thesis using Cons.IH [of acc] by simp
  next
    case (Some f)
    then show ?thesis using Cons.IH [of "acc @ [f]"] Cons.IH [of acc] by simp
  qed
qed

text \<open>
  C8.  When the \<^verbatim>\<open>files\<close> of the input is an array, \<^verbatim>\<open>repairManifest\<close> returns a
  manifest whose files are the entries of the array that are not invalid, in the order of
  the array: exactly the invalid records are removed.  This holds for every array, and so
  for those with at least one invalid record.
\<close>

theorem repair_removes_exactly_invalid:
  assumes "p_files input = Files fs"
  shows "\<exists>m. repairManifest input = Inr m
           \<and> map Some (files m) = filter (\<lambda>r. \<not> invalid_record r) fs"
proof -
  have "filter keeps fs = filter (\<lambda>r. \<not> invalid_record r) fs"
    by (rule filter_cong) (simp_all add: keeps_iff)
  with assms foldl_push_valid [of "[]" fs] show ?thesis
    by (simp add: repairManifest_def)
qed

theorem repair_removes_exactly_invalid_witness:
  "p_files ex_parsed = Files [Some ex_file_a, None, Some ex_file_bad, Some ex_file_b]
   \<and> (\<exists>m. repairManifest ex_parsed = Inr m \<and> map Some (files m) = [Some ex_file_a, Some ex_file_b])"
  using repair_removes_exactly_invalid
          [of ex_parsed "[Some ex_file_a, None, Some ex_file_bad, Some ex_file_b]"]
  by (simp add: ex_parsed_def invalid_record_def missing_def ex_file_a_def ex_file_b_def
        ex_file_bad_def)

text \<open>
  C3.  \<^verbatim>\<open>repairManifest\<close> is not total: on an object whose \<^verbatim>\<open>files\<close> is
  \<^verbatim>\<open>null\<close>, is not an array, or is absent, the call of \<^verbatim>\<open>reduce\<close> throws a
  TypeError.  \<^verbatim>\<open>readManifest\<close> replaces only an absent \<^verbatim>\<open>files\<close> by the empty
  array, so a manifest file whose \<^verbatim>\<open>files\<close> is \<^verbatim>\<open>null\<close> fails to decode.
\<close>

theorem repairManifest_throws_without_array:
  "repairManifest (ex_parsed\<lparr>p_files := NullFiles\<rparr>)
     = Inl (TypeError ''Cannot read property 'reduce' of null'')
   \<and> repairManifest (ex_parsed\<lparr>p_files := NotAnArray\<rparr>)
     = Inl (TypeError ''input.files.reduce is not a function'')
   \<and> repairManifest (ex_parsed\<lparr>p_files := NoFiles\<rparr>)
     = Inl (TypeError ''Cannot read property 'reduce' of undefined'')
   \<and> readManifest (\<lambda>data. Inr (ex_parsed\<lparr>p_files := NullFiles\<rparr>)) Inr
        ''{\"version\":1,\"instance\":\"other\",\"files\":null}''
     = Some (Inl (TypeError ''Cannot read property 'reduce' of null''))"
  by (simp add: repairManifest_def readManifest_def ex_parsed_def upgrade.simps formats_def
        CURRENT_VERSION_def)

subsection \<open>loadActivation without a deployment path\<close>

text \<open>
  C10.  With an undefined \<^verbatim>\<open>modPath\<close>, \<^verbatim>\<open>loadActivation\<close> resolves to the empty
  list and leaves the world as it was: the disk and the trace are unchanged, so no file
  is read and no dialog is shown.
\<close>

theorem loadActivation_without_path:
  "loadActivation E modType None activator w = Some (Inr [], w)"
  by (simp add: loadActivation_def)

subsection \<open>fallbackPurge\<close>

lemma fullPathOf_target:
  assumes "relPath f = Val rel"
  shows "fullPathOf E b f = Inr (target E b f)" and "target E b f = path_join E b rel"
  using assms by (simp_all add: fullPathOf_def target_def)

lemma statAsync_fst_disk:
  assumes "disk w1 = disk w"
  shows "fst (statAsync E p w1) = fst (statAsync E p w)"
  using assms by (simp add: statAsync_def Let_def split: option.splits)

lemma purged_Nil: "purged E b w0 [] q = False"
  by (simp add: purged_def)

lemma purged_Cons:
  "purged E b w0 (f # fs) q =
     ((target E b f = q \<and> time_matches E b w0 f \<and> fault E UnlinkOp q = None) \<or> purged E b w0 fs q)"
  by (auto simp add: purged_def)

lemma startStats_closed:
  assumes "\<forall>f \<in> set fs. \<exists>rel. relPath f = Val rel"
  shows "startStats E b fs w =
           ((map (\<lambda>f. (f, target E b f, fst (statAsync E (target E b f) w))) fs, None),
            w\<lparr>trace := trace w @ map (\<lambda>f. StatFile (target E b f)) fs\<rparr>)"
  using assms
proof (induction fs arbitrary: w)
  case Nil
  then show ?case by simp
next
  case (Cons f fs)
  let ?p = "target E b f"
  let ?w1 = "record_event (StatFile ?p) w"
  from Cons.prems obtain rel where "relPath f = Val rel" by auto
  then have fp: "fullPathOf E b f = Inr ?p" by (rule fullPathOf_target)
  from Cons.prems have "\<forall>f \<in> set fs. \<exists>rel. relPath f = Val rel" by simp
  from Cons.IH [OF this, of ?w1]
  have ih: "startStats E b fs ?w1 =
              ((map (\<lambda>f. (f, target E b f, fst (statAsync E (target E b f) ?w1))) fs, None),
               ?w1\<lparr>trace := trace ?w1 @ map (\<lambda>f. StatFile (target E b f)) fs\<rparr>)" .
  have same: "\<And>q. fst (statAsync E q ?w1) = fst (statAsync E q w)"
    by (rule statAsync_fst_disk) (simp add: disk_record_event)
  have world: "?w1\<lparr>trace := trace ?w1 @ map (\<lambda>f. StatFile (target E b f)) fs\<rparr>
                 = w\<lparr>trace := trace w @ map (\<lambda>f. StatFile (target E b f)) (f # fs)\<rparr>"
    by (simp add: record_event_def)
  from startStats_Cons [OF fp ih] same world show ?case by simp
qed

lemma unlinkAsync_fault:
  assumes "fault E UnlinkOp p = Some e"
  shows "unlinkAsync E p w = (Inl e, record_event (UnlinkFile p) w)"
  using assms by (simp add: unlinkAsync_def Let_def)

lemma unlinkAsync_nofault:
  assumes "fault E UnlinkOp p = None"
  shows "disk (snd (unlinkAsync E p w)) = (disk w)(p := None)"
    and "(case fst (unlinkAsync E p w) of
            Inl err \<Rightarrow> (case rejectUnlessNotFound err of Some e \<Rightarrow> [e] | None \<Rightarrow> [])
          | Inr u \<Rightarrow> []) = []"
  using assms
  by (auto simp add: unlinkAsync_def Let_def record_event_def rejectUnlessNotFound_def ENOENT_def
        split: option.splits)

lemma unlinkMatching_closed:
  "fst (unlinkMatching E (map (\<lambda>f. (f, target E b f, fst (statAsync E (target E b f) w0))) fs) w)
     = List.map_filter (unlink_failure E b w0) fs
   \<and> trace (snd (unlinkMatching E
        (map (\<lambda>f. (f, target E b f, fst (statAsync E (target E b f) w0))) fs) w))
     = trace w @ map (\<lambda>f. UnlinkFile (target E b f)) (filter (time_matches E b w0) fs)
   \<and> disk (snd (unlinkMatching E
        (map (\<lambda>f. (f, target E b f, fst (statAsync E (target E b f) w0))) fs) w))
     = (\<lambda>q. if purged E b w0 fs q then None else disk w q)"
proof (induction fs arbitrary: w)
  case Nil
  then show ?case by (simp add: purged_Nil)
next
  case (Cons f fs)
  let ?ss = "map (\<lambda>f. (f, target E b f, fst (statAsync E (target E b f) w0))) fs"
  let ?p = "target E b f"
  show ?case
  proof (cases "time_matches E b w0 f")
    case False
    then have skip: "unlinkMatching E ((f, ?p, fst (statAsync E ?p w0)) # ?ss) w = unlinkMatching E ?ss w"
      by (cases "fst (statAsync E ?p w0)")
         (simp_all add: time_matches_def unlinkMatching_stat_failed unlinkMatching_time_differs)
    from False have uf: "unlink_failure E b w0 f = None" by (simp add: unlink_failure_def)
    from False have pg: "\<And>q. purged E b w0 (f # fs) q = purged E b w0 fs q"
      by (simp add: purged_Cons)
    from Cons.IH [of w] skip uf pg False show ?thesis by (simp add: map_filter_simps)
  next
    case True
    then obtain t where st: "fst (statAsync E ?p w0) = Inr t" and tm: "time f = Val t"
      by (cases "fst (statAsync E ?p w0)") (simp_all add: time_matches_def)
    obtain r w1 where u: "unlinkAsync E ?p w = (r, w1)" by (cases "unlinkAsync E ?p w")
    obtain es w2 where m: "unlinkMatching E ?ss w1 = (es, w2)" by (cases "unlinkMatching E ?ss w1")
    from unlinkMatching_time_equal [OF tm u m] st
    have step: "unlinkMatching E ((f, ?p, fst (statAsync E ?p w0)) # ?ss) w =
           ((case r of
               Inl err \<Rightarrow> (case rejectUnlessNotFound err of Some e \<Rightarrow> [e] | None \<Rightarrow> [])
             | Inr u \<Rightarrow> [])
            @ es, w2)"
      by simp
    from Cons.IH [of w1] m
    have ih: "es = List.map_filter (unlink_failure E b w0) fs"
         "trace w2 = trace w1 @ map (\<lambda>f. UnlinkFile (target E b f)) (filter (time_matches E b w0) fs)"
         "disk w2 = (\<lambda>q. if purged E b w0 fs q then None else disk w1 q)"
      by simp_all
    have tr: "trace w1 = trace w @ [UnlinkFile ?p]"
      using unlinkAsync_trace [of E ?p w] u by simp
    show ?thesis
    proof (cases "fault E UnlinkOp ?p")
      case (Some e)
      with unlinkAsync_fault [of E ?p e w] u
      have r: "r = Inl e" and w1: "disk w1 = disk w" by (simp_all add: disk_record_event)
      from Some True have uf: "unlink_failure E b w0 f = rejectUnlessNotFound e"
        by (simp add: unlink_failure_def rejectUnlessNotFound_def)
      from Some have pg: "\<And>q. purged E b w0 (f # fs) q = purged E b w0 fs q"
        by (auto simp add: purged_Cons)
      have dk: "(\<lambda>q. if purged E b w0 fs q then None else disk w1 q)
                  = (\<lambda>q. if purged E b w0 (f # fs) q then None else disk w q)"
        by (rule ext) (simp add: pg w1)
      from step ih(1,2) tr r uf True show ?thesis
        by (cases "rejectUnlessNotFound e") (simp_all add: map_filter_simps ih(3) dk)
    next
      case None
      with unlinkAsync_nofault [of E ?p w] u
      have r: "(case r of
               Inl err \<Rightarrow> (case rejectUnlessNotFound err of Some e \<Rightarrow> [e] | None \<Rightarrow> [])
             | Inr u \<Rightarrow> []) = []"
        and w1: "disk w1 = (disk w)(?p := None)" by simp_all
      from None True have uf: "unlink_failure E b w0 f = None"
        by (simp add: unlink_failure_def)
      from None True have pg: "\<And>q. purged E b w0 (f # fs) q = (q = ?p \<or> purged E b w0 fs q)"
        by (auto simp add: purged_Cons)
      have dk: "(\<lambda>q. if purged E b w0 fs q then None else disk w1 q)
                  = (\<lambda>q. if purged E b w0 (f # fs) q then None else disk w q)"
        by (rule ext) (simp add: pg w1)
      from step ih(1,2) tr r uf True show ?thesis by (simp add: map_filter_simps ih(3) dk)
    qed
  qed
qed

lemma statRejections_closed:
  "statRejections (map (\<lambda>f. (f, target E b f, fst (statAsync E (target E b f) w))) fs)
     = List.map_filter (stat_failure E b w) fs"
proof (induction fs)
  case Nil
  then show ?case by simp
next
  case (Cons f fs)
  then show ?case
    by (cases "fst (statAsync E (target E b f) w)")
       (simp_all add: stat_failure_def rejectUnlessNotFound_def)
qed

lemma in_map_filter: "y \<in> set (List.map_filter h xs) \<longleftrightarrow> (\<exists>x \<in> set xs. h x = Some y)"
  by (induction xs) (auto split: option.splits)

lemma fallbackPurge_closed:
  assumes "\<forall>g \<in> set fs. \<exists>rel. relPath g = Val rel"
  shows "fst (fallbackPurge E b fs w)
           = (case per_file_errors E b w fs of [] \<Rightarrow> Inr () | err # later \<Rightarrow> Inl err)"
    and "trace (snd (fallbackPurge E b fs w))
           = trace w @ map (\<lambda>g. StatFile (target E b g)) fs
             @ map (\<lambda>g. UnlinkFile (target E b g)) (filter (time_matches E b w) fs)"
    and "disk (snd (fallbackPurge E b fs w)) = (\<lambda>q. if purged E b w fs q then None else disk w q)"
proof -
  let ?ss = "map (\<lambda>f. (f, target E b f, fst (statAsync E (target E b f) w))) fs"
  let ?w1 = "w\<lparr>trace := trace w @ map (\<lambda>f. StatFile (target E b f)) fs\<rparr>"
  have st: "startStats E b fs w = ((?ss, None), ?w1)"
    using assms by (rule startStats_closed)
  obtain es w2 where um: "unlinkMatching E ?ss ?w1 = (es, w2)"
    by (cases "unlinkMatching E ?ss ?w1")
  from unlinkMatching_closed [of E b w fs ?w1] um
  have es: "es = List.map_filter (unlink_failure E b w) fs"
    and tr: "trace w2 = trace ?w1 @ map (\<lambda>f. UnlinkFile (target E b f)) (filter (time_matches E b w) fs)"
    and dk: "disk w2 = (\<lambda>q. if purged E b w fs q then None else disk ?w1 q)"
    by simp_all
  have fp: "fallbackPurge E b fs w =
              (case statRejections ?ss @ es of [] \<Rightarrow> Inr () | err # later \<Rightarrow> Inl err, w2)"
    using st um by (simp add: fallbackPurge_def split: list.splits)
  have errs: "statRejections ?ss @ es = per_file_errors E b w fs"
    by (simp add: per_file_errors_def statRejections_closed es)
  from fp errs
  show "fst (fallbackPurge E b fs w)
           = (case per_file_errors E b w fs of [] \<Rightarrow> Inr () | err # later \<Rightarrow> Inl err)"
    by simp
  from fp tr
  show "trace (snd (fallbackPurge E b fs w))
           = trace w @ map (\<lambda>g. StatFile (target E b g)) fs
             @ map (\<lambda>g. UnlinkFile (target E b g)) (filter (time_matches E b w) fs)"
    by simp
  from fp dk
  show "disk (snd (fallbackPurge E b fs w)) = (\<lambda>q. if purged E b w fs q then None else disk w q)"
    by (simp cong: if_cong)
qed

lemma per_file_errors_member:
  "e \<in> set (per_file_errors E b w fs)
     \<longleftrightarrow> (\<exists>g \<in> set fs. stat_failure E b w g = Some e \<or> unlink_failure E b w g = Some e)"
  by (auto simp add: per_file_errors_def in_map_filter)

lemma first_of_singleton_set:
  assumes "e \<in> set xs" and "set xs \<subseteq> {e}"
  shows "(case xs of [] \<Rightarrow> Inr () | err # later \<Rightarrow> Inl err) = Inl e"
  using assms by (cases xs) auto

text \<open>
  C5.  For a list of records whose \<^verbatim>\<open>relPath\<close> are strings, the whole call: every
  record is statted, in the order of the list, and then exactly the records whose time
  matches are unlinked; afterwards the purged paths are gone and every other path is as
  before, whether the call fails or not; the call fails with the first per-file error
  other than not-found, and succeeds when there is none.  For one record \<open>f\<close> of the
  list: when its stat reports not-found it counts as no error and issues no unlink, and
  its path is as before; when the file exists with the recorded time it is unlinked, and
  gone when the unlink meets no fault; when the file exists with another time the record
  issues no unlink, and the path is as before unless another record of the list names it
  with the time of the file; an error of its stat or of its unlink whose code is not
  \<^verbatim>\<open>ENOENT\<close> makes the call fail, with that error when no other error arrives.
\<close>

theorem fallbackPurge_per_file:
  assumes "\<forall>g \<in> set fs. \<exists>rel. relPath g = Val rel" and "f \<in> set fs"
  shows "trace (snd (fallbackPurge E b fs w))
           = trace w @ map (\<lambda>g. StatFile (target E b g)) fs
             @ map (\<lambda>g. UnlinkFile (target E b g)) (filter (time_matches E b w) fs)
       \<and> disk (snd (fallbackPurge E b fs w)) = (\<lambda>q. if purged E b w fs q then None else disk w q)
       \<and> fst (fallbackPurge E b fs w)
           = (case per_file_errors E b w fs of [] \<Rightarrow> Inr () | err # later \<Rightarrow> Inl err)
       \<and> (fst (statAsync E (target E b f) w) = Inl e \<and> code e = Some ''ENOENT''
            \<longrightarrow> \<not> time_matches E b w f \<and> stat_failure E b w f = None
                \<and> unlink_failure E b w f = None
                \<and> disk (snd (fallbackPurge E b fs w)) (target E b f) = disk w (target E b f))
       \<and> (fst (statAsync E (target E b f) w) = Inr t \<and> time f = Val t
            \<longrightarrow> time_matches E b w f
                \<and> (fault E UnlinkOp (target E b f) = None
                     \<longrightarrow> disk (snd (fallbackPurge E b fs w)) (target E b f) = None))
       \<and> (fst (statAsync E (target E b f) w) = Inr t \<and> time f \<noteq> Val t
            \<longrightarrow> \<not> time_matches E b w f \<and> stat_failure E b w f = None
                \<and> unlink_failure E b w f = None
                \<and> ((\<forall>g \<in> set fs. target E b g = target E b f \<longrightarrow> time g \<noteq> Val t)
                     \<longrightarrow> disk (snd (fallbackPurge E b fs w)) (target E b f)
                          = disk w (target E b f)))
       \<and> ((fst (statAsync E (target E b f) w) = Inl e \<and> code e \<noteq> Some ''ENOENT'')
           \<or> (time_matches E b w f \<and> fault E UnlinkOp (target E b f) = Some e
               \<and> code e \<noteq> Some ''ENOENT'')
            \<longrightarrow> e \<in> set (per_file_errors E b w fs)
                \<and> (\<exists>e'. fst (fallbackPurge E b fs w) = Inl e'
                          \<and> e' \<in> set (per_file_errors E b w fs))
                \<and> (set (per_file_errors E b w fs) \<subseteq> {e}
                     \<longrightarrow> fst (fallbackPurge E b fs w) = Inl e))
       \<and> ((\<forall>g \<in> set fs. stat_failure E b w g = None \<and> unlink_failure E b w g = None)
            \<longrightarrow> fst (fallbackPurge E b fs w) = Inr ())"
proof -
  let ?p = "target E b f"
  let ?w' = "snd (fallbackPurge E b fs w)"
  note C = fallbackPurge_closed [OF assms(1), of E b w]
  have missing: "\<not> time_matches E b w f \<and> stat_failure E b w f = None
                \<and> unlink_failure E b w f = None \<and> disk ?w' ?p = disk w ?p"
    if a: "fst (statAsync E ?p w) = Inl e \<and> code e = Some ''ENOENT''"
  proof -
    from a have n: "\<not> time_matches E b w f" by (simp add: time_matches_def)
    from a have "\<not> purged E b w fs ?p"
      by (auto simp add: purged_def time_matches_def)
    with C(3) n a show ?thesis
      by (simp add: stat_failure_def unlink_failure_def)
  qed
  have equal: "time_matches E b w f \<and> (fault E UnlinkOp ?p = None \<longrightarrow> disk ?w' ?p = None)"
    if a: "fst (statAsync E ?p w) = Inr t \<and> time f = Val t"
  proof -
    from a have m: "time_matches E b w f" by (simp add: time_matches_def)
    with assms(2) have "fault E UnlinkOp ?p = None \<longrightarrow> purged E b w fs ?p"
      by (auto simp add: purged_def)
    with C(3) m show ?thesis by simp
  qed
  have differs: "\<not> time_matches E b w f \<and> stat_failure E b w f = None
                \<and> unlink_failure E b w f = None
                \<and> ((\<forall>g \<in> set fs. target E b g = ?p \<longrightarrow> time g \<noteq> Val t)
                     \<longrightarrow> disk ?w' ?p = disk w ?p)"
    if a: "fst (statAsync E ?p w) = Inr t \<and> time f \<noteq> Val t"
  proof -
    from a have n: "\<not> time_matches E b w f" by (simp add: time_matches_def)
    from a have "(\<forall>g \<in> set fs. target E b g = ?p \<longrightarrow> time g \<noteq> Val t) \<longrightarrow> \<not> purged E b w fs ?p"
      by (auto simp add: purged_def time_matches_def)
    with C(3) n a show ?thesis
      by (simp add: stat_failure_def unlink_failure_def)
  qed
  have fails: "e \<in> set (per_file_errors E b w fs)
                \<and> (\<exists>e'. fst (fallbackPurge E b fs w) = Inl e' \<and> e' \<in> set (per_file_errors E b w fs))
                \<and> (set (per_file_errors E b w fs) \<subseteq> {e} \<longrightarrow> fst (fallbackPurge E b fs w) = Inl e)"
    if a: "(fst (statAsync E ?p w) = Inl e \<and> code e \<noteq> Some ''ENOENT'')
           \<or> (time_matches E b w f \<and> fault E UnlinkOp ?p = Some e \<and> code e \<noteq> Some ''ENOENT'')"
  proof -
    from a have "stat_failure E b w f = Some e \<or> unlink_failure E b w f = Some e"
      by (auto simp add: stat_failure_def unlink_failure_def)
    with assms(2) have mem: "e \<in> set (per_file_errors E b w fs)"
      by (auto simp add: per_file_errors_member)
    then obtain x xs where xs: "per_file_errors E b w fs = x # xs"
      by (cases "per_file_errors E b w fs") auto
    with C(1) have "fst (fallbackPurge E b fs w) = Inl x \<and> x \<in> set (per_file_errors E b w fs)"
      by simp
    moreover have "set (per_file_errors E b w fs) \<subseteq> {e} \<longrightarrow> fst (fallbackPurge E b fs w) = Inl e"
      using C(1) first_of_singleton_set [OF mem] by simp
    ultimately show ?thesis using mem by blast
  qed
  have succeeds: "fst (fallbackPurge E b fs w) = Inr ()"
    if a: "\<forall>g \<in> set fs. stat_failure E b w g = None \<and> unlink_failure E b w g = None"
  proof -
    from a have "\<And>e. e \<notin> set (per_file_errors E b w fs)"
      by (auto simp add: per_file_errors_member)
    then have "per_file_errors E b w fs = []"
      by (cases "per_file_errors E b w fs") auto
    with C(1) show ?thesis by simp
  qed
  from C missing equal differs fails succeeds show ?thesis by blast
qed

lemma ex_targets:
  "target (ex_env answer) ''/game'' ex_file_a = ''/game/a.esp''"
  "target (ex_env answer) ''/game'' ex_file_b = ''/game/b.esp''"
  "target (ex_env answer) ''/game'' ex_file_gone = ''/game/gone.esp''"
  "target ex_env_locked ''/game'' ex_file_a = ''/game/a.esp''"
  "target ex_env_locked ''/game'' ex_file_b = ''/game/b.esp''"
  "target ex_env_faulty ''/game'' ex_file_a = ''/game/a.esp''"
  "target ex_env_faulty ''/game'' ex_file_b = ''/game/b.esp''"
  "target ex_env_faulty ''/game'' ex_file_x = ''/game/data/x.esp''"
  by (simp_all add: target_def ex_env_def ex_env_locked_def ex_env_faulty_def
        ex_file_a_def ex_file_b_def ex_file_gone_def ex_file_x_def)

lemma ex_stats:
  "fst (statAsync (ex_env answer) ''/game/a.esp'' ex_world) = Inr 100"
  "fst (statAsync (ex_env answer) ''/game/b.esp'' ex_world) = Inr 70"
  "fst (statAsync (ex_env answer) ''/game/gone.esp'' ex_world) = Inl (ENOENT ''/game/gone.esp'')"
  "fst (statAsync ex_env_locked ''/game/a.esp'' ex_world) = Inr 100"
  "fst (statAsync ex_env_locked ''/game/b.esp'' ex_world) = Inr 70"
  "fst (statAsync ex_env_faulty ''/game/a.esp'' ex_world) = Inr 100"
  "fst (statAsync ex_env_faulty ''/game/b.esp'' ex_world) = Inr 70"
  "fst (statAsync ex_env_faulty ''/game/data/x.esp'' ex_world) = Inl ENOTDIR"
  by (simp_all add: statAsync_def Let_def ex_env_def ex_env_locked_def ex_env_faulty_def ex_world_def)

lemma ex_times:
  "time ex_file_a = Val 100" "time ex_file_b = Val 50" "time ex_file_gone = Val 100"
  "time ex_file_x = Val 7"
  by (simp_all add: ex_file_a_def ex_file_b_def ex_file_gone_def ex_file_x_def)

lemma ex_codes:
  "code (ENOENT p) = Some ''ENOENT''" "code EPERM = Some ''EPERM''" "code ENOTDIR = Some ''ENOTDIR''"
  by (simp_all add: ENOENT_def EPERM_def ENOTDIR_def)

lemma ex_unlink_faults:
  "fault (ex_env answer) UnlinkOp p = None"
  "fault ex_env_locked UnlinkOp p = Some EPERM"
  "fault ex_env_faulty UnlinkOp ''/game/a.esp'' = Some EPERM"
  by (simp_all add: ex_env_def ex_env_locked_def ex_env_faulty_def)

lemma ex_strings:
  "\<forall>g \<in> set [ex_file_a, ex_file_b, ex_file_gone]. \<exists>rel. relPath g = Val rel"
  "\<forall>g \<in> set [ex_file_b, ex_file_a]. \<exists>rel. relPath g = Val rel"
  "\<forall>g \<in> set [ex_file_a, ex_file_b, ex_file_x]. \<exists>rel. relPath g = Val rel"
  by (simp_all add: ex_file_a_def ex_file_b_def ex_file_gone_def ex_file_x_def)

theorem fallbackPurge_per_file_witness:
  "fst (fallbackPurge (ex_env ''Purge'') ''/game'' [ex_file_a, ex_file_b, ex_file_gone] ex_world)
     = Inr ()
   \<and> trace (snd (fallbackPurge (ex_env ''Purge'') ''/game'' [ex_file_a, ex_file_b, ex_file_gone]
        ex_world))
     = [StatFile ''/game/a.esp'', StatFile ''/game/b.esp'', StatFile ''/game/gone.esp'',
        UnlinkFile ''/game/a.esp'']
   \<and> disk (snd (fallbackPurge (ex_env ''Purge'') ''/game'' [ex_file_a, ex_file_b, ex_file_gone]
        ex_world)) ''/game/a.esp'' = None
   \<and> disk (snd (fallbackPurge (ex_env ''Purge'') ''/game'' [ex_file_a, ex_file_b, ex_file_gone]
        ex_world)) ''/game/b.esp'' = Some \<lparr>content = ''B'', mtime = 70\<rparr>
   \<and> disk (snd (fallbackPurge (ex_env ''Purge'') ''/game'' [ex_file_a, ex_file_b, ex_file_gone]
        ex_world)) ''/game/gone.esp'' = None
   \<and> fst (fallbackPurge ex_env_locked ''/game'' [ex_file_b, ex_file_a] ex_world) = Inl EPERM
   \<and> disk (snd (fallbackPurge ex_env_locked ''/game'' [ex_file_b, ex_file_a] ex_world))
        ''/game/a.esp'' = Some \<lparr>content = ''A'', mtime = 100\<rparr>
   \<and> fst (fallbackPurge ex_env_faulty ''/game'' [ex_file_a, ex_file_b, ex_file_x] ex_world)
     = Inl ENOTDIR
   \<and> trace (snd (fallbackPurge ex_env_faulty ''/game'' [ex_file_a, ex_file_b, ex_file_x] ex_world))
     = [StatFile ''/game/a.esp'', StatFile ''/game/b.esp'', StatFile ''/game/data/x.esp'',
        UnlinkFile ''/game/a.esp'']
   \<and> EPERM \<in> set (per_file_errors ex_env_faulty ''/game'' ex_world [ex_file_a, ex_file_b, ex_file_x])"
proof -
  let ?E = "ex_env ''Purge''"
  let ?fs = "[ex_file_a, ex_file_b, ex_file_gone]"
  have ma: "time_matches ?E ''/game'' ex_world ex_file_a"
    and mb: "\<not> time_matches ?E ''/game'' ex_world ex_file_b"
    and mg: "\<not> time_matches ?E ''/game'' ex_world ex_file_gone"
    by (simp_all add: time_matches_def ex_targets ex_stats ex_times)
  have la: "time_matches ex_env_locked ''/game'' ex_world ex_file_a"
    and lb: "\<not> time_matches ex_env_locked ''/game'' ex_world ex_file_b"
    by (simp_all add: time_matches_def ex_targets ex_stats ex_times)
  have fa: "time_matches ex_env_faulty ''/game'' ex_world ex_file_a"
    and fb: "\<not> time_matches ex_env_faulty ''/game'' ex_world ex_file_b"
    and fx: "\<not> time_matches ex_env_faulty ''/game'' ex_world ex_file_x"
    by (simp_all add: time_matches_def ex_targets ex_stats ex_times)
  have e0: "per_file_errors ?E ''/game'' ex_world ?fs = []"
    by (simp add: per_file_errors_def stat_failure_def unlink_failure_def ex_targets ex_stats
          ex_codes ex_unlink_faults)
  have e1: "per_file_errors ex_env_locked ''/game'' ex_world [ex_file_b, ex_file_a] = [EPERM]"
    by (simp add: per_file_errors_def stat_failure_def unlink_failure_def ex_targets ex_stats
          ex_codes ex_unlink_faults la lb)
  have e2: "per_file_errors ex_env_faulty ''/game'' ex_world [ex_file_a, ex_file_b, ex_file_x]
              = [ENOTDIR, EPERM]"
    by (simp add: per_file_errors_def stat_failure_def unlink_failure_def ex_targets ex_stats
          ex_codes ex_unlink_faults fa fb fx)
  note T0 = fallbackPurge_per_file [OF ex_strings(1), where f = ex_file_a and E = ?E
      and b = "''/game''" and w = ex_world and t = 100 and e = EPERM]
  note T1 = fallbackPurge_per_file [OF ex_strings(2), where f = ex_file_a and E = ex_env_locked
      and b = "''/game''" and w = ex_world and t = 100 and e = EPERM]
  note T2 = fallbackPurge_per_file [OF ex_strings(3), where f = ex_file_a and E = ex_env_faulty
      and b = "''/game''" and w = ex_world and t = 100 and e = EPERM]
  have in0: "ex_file_a \<in> set ?fs" and in1: "ex_file_a \<in> set [ex_file_b, ex_file_a]"
    and in2: "ex_file_a \<in> set [ex_file_a, ex_file_b, ex_file_x]"
    by simp_all
  from T0 [OF in0, THEN conjunct2, THEN conjunct2, THEN conjunct1] e0
  have g1: "fst (fallbackPurge ?E ''/game'' ?fs ex_world) = Inr ()" by simp
  from T0 [OF in0, THEN conjunct1] ma mb mg
  have g2: "trace (snd (fallbackPurge ?E ''/game'' ?fs ex_world))
     = [StatFile ''/game/a.esp'', StatFile ''/game/b.esp'', StatFile ''/game/gone.esp'',
        UnlinkFile ''/game/a.esp'']"
    by (simp add: ex_targets ex_world_def)
  from T0 [OF in0, THEN conjunct2, THEN conjunct1] ma mb mg
  have g3: "disk (snd (fallbackPurge ?E ''/game'' ?fs ex_world)) ''/game/a.esp'' = None"
       "disk (snd (fallbackPurge ?E ''/game'' ?fs ex_world)) ''/game/b.esp''
          = Some \<lparr>content = ''B'', mtime = 70\<rparr>"
       "disk (snd (fallbackPurge ?E ''/game'' ?fs ex_world)) ''/game/gone.esp'' = None"
    by (simp_all add: purged_def ex_targets ex_unlink_faults ex_world_def)
  from T1 [OF in1, THEN conjunct2, THEN conjunct2, THEN conjunct1] e1
  have g4: "fst (fallbackPurge ex_env_locked ''/game'' [ex_file_b, ex_file_a] ex_world) = Inl EPERM"
    by simp
  from T1 [OF in1, THEN conjunct2, THEN conjunct1] la lb
  have g5: "disk (snd (fallbackPurge ex_env_locked ''/game'' [ex_file_b, ex_file_a] ex_world))
        ''/game/a.esp'' = Some \<lparr>content = ''A'', mtime = 100\<rparr>"
    by (simp add: purged_def ex_targets ex_unlink_faults ex_world_def)
  from T2 [OF in2, THEN conjunct2, THEN conjunct2, THEN conjunct1] e2
  have g6: "fst (fallbackPurge ex_env_faulty ''/game'' [ex_file_a, ex_file_b, ex_file_x] ex_world)
     = Inl ENOTDIR"
    by simp
  from T2 [OF in2, THEN conjunct1] fa fb fx
  have g7: "trace (snd (fallbackPurge ex_env_faulty ''/game'' [ex_file_a, ex_file_b, ex_file_x]
              ex_world))
     = [StatFile ''/game/a.esp'', StatFile ''/game/b.esp'', StatFile ''/game/data/x.esp'',
        UnlinkFile ''/game/a.esp'']"
    by (simp add: ex_targets ex_world_def)
  have "time_matches ex_env_faulty ''/game'' ex_world ex_file_a
          \<and> fault ex_env_faulty UnlinkOp (target ex_env_faulty ''/game'' ex_file_a) = Some EPERM
          \<and> code EPERM \<noteq> Some ''ENOENT''"
    using fa by (simp add: ex_targets ex_unlink_faults ex_codes)
  with T2 [OF in2, THEN conjunct2, THEN conjunct2, THEN conjunct2, THEN conjunct2, THEN conjunct2,
           THEN conjunct2, THEN conjunct1]
  have g8: "EPERM \<in> set (per_file_errors ex_env_faulty ''/game'' ex_world
                         [ex_file_a, ex_file_b, ex_file_x])"
    by blast
  from g1 g2 g3 g4 g5 g6 g7 g8 show ?thesis by blast
qed

subsection \<open>saveActivation with no files\<close>

lemma removeAsync_failed:
  assumes "removeAsync E p w = (Inl e, w')"
  shows "disk w' = disk w"
  using assms by (auto simp add: removeAsync_def Let_def record_event_def split: option.splits)

lemma removeAsync_done:
  assumes "fault E RemoveOp p = None"
  shows "disk (snd (removeAsync E p w)) p = None"
  using assms by (simp add: removeAsync_def Let_def record_event_def split: option.splits)

text \<open>
  C2, as the claim states it, fails: when the removal of the manifest file fails with
  \<^verbatim>\<open>EPERM\<close>, \<^verbatim>\<open>saveActivation\<close> with no files still resolves, and the file
  is still on the disk.
\<close>

theorem saveActivation_absorbs_other_errors:
  "removeAsync ((ex_env ''Purge'')\<lparr>fault := (\<lambda>op p. if op = RemoveOp then Some EPERM else None)\<rparr>)
     ''/game/vortex.deployment.json'' ex_world
     = (Inl EPERM, record_event (RemoveFile ''/game/vortex.deployment.json'') ex_world)
   \<and> code EPERM \<noteq> Some ''ENOENT''
   \<and> saveActivation ((ex_env ''Purge'')\<lparr>fault := (\<lambda>op p. if op = RemoveOp then Some EPERM else None)\<rparr>)
       None ''here'' ''/game'' [] ''hardlink_activator'' ex_world
     = (Inr (), record_event (RemoveFile ''/game/vortex.deployment.json'') ex_world)
   \<and> disk (record_event (RemoveFile ''/game/vortex.deployment.json'') ex_world)
        ''/game/vortex.deployment.json'' = Some \<lparr>content = ''{manifest}'', mtime = 100\<rparr>"
  by (simp add: saveActivation_def removeAsync_def tagFile_def typeTag_def
        ex_env_def ex_world_def EPERM_def record_event_def Let_def)

text \<open>
  C2, amended.  When the serialised manifest re-parses, \<^verbatim>\<open>saveActivation\<close> with no
  files calls the removal of the manifest file once and resolves whatever the removal
  returns: a not-found error and any other error are absorbed alike.  The file is gone
  afterwards when the removal meets no fault, and is as before when the removal fails.
\<close>

theorem saveActivation_empty_removes_and_resolves:
  assumes "json_parse E (json_stringify E \<lparr>version = CURRENT_VERSION, instance' = i,
             deploymentMethod = Val aid, files = []\<rparr>) = Inr reparsed"
  shows "saveActivation E mt i g [] aid w = (Inr (), snd (removeAsync E (tagFile E g mt) w))
       \<and> trace (snd (saveActivation E mt i g [] aid w)) = trace w @ [RemoveFile (tagFile E g mt)]
       \<and> (fault E RemoveOp (tagFile E g mt) = None
            \<longrightarrow> disk (snd (saveActivation E mt i g [] aid w)) (tagFile E g mt) = None)
       \<and> (fst (removeAsync E (tagFile E g mt) w) = Inl e
            \<longrightarrow> disk (snd (saveActivation E mt i g [] aid w)) = disk w)"
proof (intro conjI impI)
  show s: "saveActivation E mt i g [] aid w = (Inr (), snd (removeAsync E (tagFile E g mt) w))"
    using assms by (rule saveActivation_empty)
  show "trace (snd (saveActivation E mt i g [] aid w)) = trace w @ [RemoveFile (tagFile E g mt)]"
    using s by (simp add: removeAsync_trace)
  show "disk (snd (saveActivation E mt i g [] aid w)) (tagFile E g mt) = None"
    if "fault E RemoveOp (tagFile E g mt) = None"
    using s that by (simp add: removeAsync_done)
  show "disk (snd (saveActivation E mt i g [] aid w)) = disk w"
    if "fst (removeAsync E (tagFile E g mt) w) = Inl e"
    using s that removeAsync_failed [of E "tagFile E g mt" w e "snd (removeAsync E (tagFile E g mt) w)"]
    by (cases "removeAsync E (tagFile E g mt) w") simp
qed

theorem saveActivation_empty_removes_and_resolves_witness:
  "json_parse (ex_env ''Purge'') (json_stringify (ex_env ''Purge'')
       \<lparr>version = CURRENT_VERSION, instance' = ''here'',
        deploymentMethod = Val ''hardlink_activator'', files = []\<rparr>) = Inr ex_parsed
   \<and> fault (ex_env ''Purge'') RemoveOp ''/game/vortex.deployment.json'' = None
   \<and> fst (saveActivation (ex_env ''Purge'') None ''here'' ''/game'' [] ''hardlink_activator'' ex_world)
       = Inr ()
   \<and> trace (snd (saveActivation (ex_env ''Purge'') None ''here'' ''/game'' [] ''hardlink_activator''
        ex_world)) = [RemoveFile ''/game/vortex.deployment.json'']
   \<and> disk (snd (saveActivation (ex_env ''Purge'') None ''here'' ''/game'' [] ''hardlink_activator''
        ex_world)) ''/game/vortex.deployment.json'' = None
   \<and> fst (removeAsync ((ex_env ''Purge'')\<lparr>fault := (\<lambda>op p. Some EPERM)\<rparr>) ''/game/vortex.deployment.json''
          ex_world) = Inl EPERM
   \<and> fst (saveActivation ((ex_env ''Purge'')\<lparr>fault := (\<lambda>op p. Some EPERM)\<rparr>) None ''here'' ''/game'' []
          ''hardlink_activator'' ex_world) = Inr ()
   \<and> disk (snd (saveActivation ((ex_env ''Purge'')\<lparr>fault := (\<lambda>op p. Some EPERM)\<rparr>) None ''here''
          ''/game'' [] ''hardlink_activator'' ex_world)) = disk ex_world"
proof -
  let ?F = "(ex_env ''Purge'')\<lparr>fault := (\<lambda>op p. Some EPERM)\<rparr>"
  have p: "json_parse (ex_env ''Purge'') (json_stringify (ex_env ''Purge'')
       \<lparr>version = CURRENT_VERSION, instance' = ''here'',
        deploymentMethod = Val ''hardlink_activator'', files = []\<rparr>) = Inr ex_parsed"
    by (simp add: ex_env_def)
  have p': "json_parse ?F (json_stringify ?F
       \<lparr>version = CURRENT_VERSION, instance' = ''here'',
        deploymentMethod = Val ''hardlink_activator'', files = []\<rparr>) = Inr ex_parsed"
    by (simp add: ex_env_def)
  have f: "fault (ex_env ''Purge'') RemoveOp ''/game/vortex.deployment.json'' = None"
    by (simp add: ex_env_def)
  have f': "fst (removeAsync ?F ''/game/vortex.deployment.json'' ex_world) = Inl EPERM"
    by (simp add: removeAsync_def Let_def)
  have t: "tagFile (ex_env ''Purge'') ''/game'' None = ''/game/vortex.deployment.json''"
          "tagFile ?F ''/game'' None = ''/game/vortex.deployment.json''"
    by (simp_all add: tagFile_def typeTag_def ex_env_def)
  note T = saveActivation_empty_removes_and_resolves
             [OF p, where mt = None and g = "''/game''" and w = ex_world and e = EPERM]
  note T' = saveActivation_empty_removes_and_resolves
             [OF p', where mt = None and g = "''/game''" and w = ex_world and e = EPERM]
  from T [THEN conjunct1]
  have "fst (saveActivation (ex_env ''Purge'') None ''here'' ''/game'' []
               ''hardlink_activator'' ex_world) = Inr ()"
    by simp
  moreover from T [THEN conjunct2, THEN conjunct1]
  have "trace (snd (saveActivation (ex_env ''Purge'') None ''here'' ''/game'' []
               ''hardlink_activator'' ex_world)) = [RemoveFile ''/game/vortex.deployment.json'']"
    unfolding t by (simp add: ex_world_def)
  moreover from T [THEN conjunct2, THEN conjunct2, THEN conjunct1] f
  have "disk (snd (saveActivation (ex_env ''Purge'') None ''here'' ''/game'' []
               ''hardlink_activator'' ex_world)) ''/game/vortex.deployment.json'' = None"
    unfolding t by blast
  moreover from T' [THEN conjunct1]
  have "fst (saveActivation ?F None ''here'' ''/game'' [] ''hardlink_activator'' ex_world) = Inr ()"
    by simp
  moreover from T' [THEN conjunct2, THEN conjunct2, THEN conjunct2] f'
  have "disk (snd (saveActivation ?F None ''here'' ''/game'' [] ''hardlink_activator'' ex_world))
          = disk ex_world"
    unfolding t by blast
  ultimately show ?thesis using p f f' by blast
qed

subsection \<open>loadActivation: reading the manifest\<close>

lemma readTagObject_not_found:
  assumes "readFileAsync E tag w = (Inl e, w1)" and "code e = Some ''ENOENT''"
  shows "readTagObject E tag w = Some (Inr (Some (emptyManifest (instanceId E))), w1)"
  using assms by (simp add: readTagObject_def)

lemma readTagObject_read_failed:
  assumes "readFileAsync E tag w = (Inl e, w1)" and "code e \<noteq> Some ''ENOENT''"
  shows "readTagObject E tag w = Some (Inl (Error (message e @ report_hint tag)), w1)"
  using assms by (simp add: readTagObject_def report_hint_def)

lemma readTagObject_empty_data:
  assumes "readFileAsync E tag w = (Inr [], w1)"
  shows "readTagObject E tag w = Some (Inr None, w1)"
  using assms by (simp add: readTagObject_def readManifest_def)

lemma readTagObject_decoded:
  assumes "readFileAsync E tag w = (Inr data, w1)"
    and "readManifest (json_parse E) (format_1 E) data = Some (Inr tagObject)"
  shows "readTagObject E tag w = Some (Inr tagObject, w1)"
  using assms by (simp add: readTagObject_def)

lemma resolveTagObject_undefined:
  "resolveTagObject E mt p act None w = (Inr [], w)"
  by (simp add: resolveTagObject_def tagObjectOrEmpty_def emptyManifest_def)

lemma resolveTagObject_emptyManifest:
  "resolveTagObject E mt p act (Some (emptyManifest (instanceId E))) w = (Inr [], w)"
  by (simp add: resolveTagObject_def tagObjectOrEmpty_def emptyManifest_def)

lemma loadActivation_resolves:
  assumes "readTagObject E (tagFile E p mt) w = Some (Inr tagObject, w1)"
  shows "loadActivation E mt (Some p) act w = Some (resolveTagObject E mt p act tagObject w1)"
  using assms by (simp add: loadActivation_def)

lemma loadActivation_rejects:
  assumes "readTagObject E (tagFile E p mt) w = Some (Inl err, w1)"
  shows "loadActivation E mt (Some p) act w = Some (Inl err, w1)"
  using assms by (simp add: loadActivation_def)

lemma tagObjectOrEmpty_undefined:
  "tagObjectOrEmpty E None =
     \<lparr>version = CURRENT_VERSION, instance' = instanceId E, deploymentMethod = Undefined, files = []\<rparr>"
  by (simp add: tagObjectOrEmpty_def emptyManifest_def)

lemma emptyManifest_stamped:
  "emptyManifest inst =
     \<lparr>version = CURRENT_VERSION, instance' = inst, deploymentMethod = Undefined, files = []\<rparr>"
  by (simp add: emptyManifest_def)

lemma resolveTagObject_via_tagObject:
  "resolveTagObject E mt p act tagObject0 w
     = resolveTagObject E mt p act (Some (tagObjectOrEmpty E tagObject0)) w"
  by (simp add: resolveTagObject_def tagObjectOrEmpty_def)

text \<open>
  C9.  When the read of the manifest file fails with code \<^verbatim>\<open>ENOENT\<close>, the tag
  object is the empty manifest: the current version, the current instance id, no
  deployment method and no files.  When the file holds the empty string the decode gives
  \<^verbatim>\<open>undefined\<close>, which the callback replaces by that same manifest.  In both
  cases \<^verbatim>\<open>loadActivation\<close> goes on with that manifest and resolves to the empty
  list, with no effect but the read.  Any other read failure rejects with a plain error
  whose message is the message of the failure followed by a text that holds the path of
  the manifest file.
\<close>

theorem loadActivation_absent_or_empty:
  "(readFileAsync E (tagFile E p mt) w = (Inl e, w1) \<and> code e = Some ''ENOENT''
      \<longrightarrow> readTagObject E (tagFile E p mt) w = Some (Inr (Some (emptyManifest (instanceId E))), w1)
          \<and> emptyManifest (instanceId E)
              = \<lparr>version = CURRENT_VERSION, instance' = instanceId E,
                 deploymentMethod = Undefined, files = []\<rparr>
          \<and> loadActivation E mt (Some p) act w
              = Some (resolveTagObject E mt p act
                        (Some \<lparr>version = CURRENT_VERSION, instance' = instanceId E,
                               deploymentMethod = Undefined, files = []\<rparr>) w1)
          \<and> loadActivation E mt (Some p) act w = Some (Inr [], w1))
   \<and> (readFileAsync E (tagFile E p mt) w = (Inr [], w1)
      \<longrightarrow> readManifest (json_parse E) (format_1 E) [] = Some (Inr None)
          \<and> readTagObject E (tagFile E p mt) w = Some (Inr None, w1)
          \<and> tagObjectOrEmpty E None
              = \<lparr>version = CURRENT_VERSION, instance' = instanceId E,
                 deploymentMethod = Undefined, files = []\<rparr>
          \<and> loadActivation E mt (Some p) act w
              = Some (resolveTagObject E mt p act
                        (Some \<lparr>version = CURRENT_VERSION, instance' = instanceId E,
                               deploymentMethod = Undefined, files = []\<rparr>) w1)
          \<and> loadActivation E mt (Some p) act w = Some (Inr [], w1))
   \<and> (readFileAsync E (tagFile E p mt) w = (Inl e, w1) \<and> code e \<noteq> Some ''ENOENT''
      \<longrightarrow> loadActivation E mt (Some p) act w
            = Some (Inl (Error (message e @ ''.'' @ [CHR 0x0A]
                          @ ''*** When you report this, please include the file \"''
                          @ tagFile E p mt @ '' ***\"'')), w1))"
proof (intro conjI impI)
  assume a: "readFileAsync E (tagFile E p mt) w = (Inl e, w1) \<and> code e = Some ''ENOENT''"
  then show r: "readTagObject E (tagFile E p mt) w = Some (Inr (Some (emptyManifest (instanceId E))), w1)"
    by (simp add: readTagObject_not_found)
  show "emptyManifest (instanceId E)
              = \<lparr>version = CURRENT_VERSION, instance' = instanceId E,
                 deploymentMethod = Undefined, files = []\<rparr>"
    by (rule emptyManifest_stamped)
  show "loadActivation E mt (Some p) act w
              = Some (resolveTagObject E mt p act
                        (Some \<lparr>version = CURRENT_VERSION, instance' = instanceId E,
                               deploymentMethod = Undefined, files = []\<rparr>) w1)"
    using loadActivation_resolves [OF r] by (simp add: emptyManifest_stamped)
  show "loadActivation E mt (Some p) act w = Some (Inr [], w1)"
    using loadActivation_resolves [OF r] by (simp add: resolveTagObject_emptyManifest)
next
  assume a: "readFileAsync E (tagFile E p mt) w = (Inr [], w1)"
  show "readManifest (json_parse E) (format_1 E) [] = Some (Inr None)"
    by (simp add: readManifest_def)
  from a show r: "readTagObject E (tagFile E p mt) w = Some (Inr None, w1)"
    by (rule readTagObject_empty_data)
  show "tagObjectOrEmpty E None
              = \<lparr>version = CURRENT_VERSION, instance' = instanceId E,
                 deploymentMethod = Undefined, files = []\<rparr>"
    by (rule tagObjectOrEmpty_undefined)
  show "loadActivation E mt (Some p) act w
              = Some (resolveTagObject E mt p act
                        (Some \<lparr>version = CURRENT_VERSION, instance' = instanceId E,
                               deploymentMethod = Undefined, files = []\<rparr>) w1)"
    using loadActivation_resolves [OF r] resolveTagObject_via_tagObject [of E mt p act None w1]
    by (simp add: tagObjectOrEmpty_undefined)
  from loadActivation_resolves [OF r]
  show "loadActivation E mt (Some p) act w = Some (Inr [], w1)"
    by (simp add: resolveTagObject_undefined)
next
  assume a: "readFileAsync E (tagFile E p mt) w = (Inl e, w1) \<and> code e \<noteq> Some ''ENOENT''"
  then have "readTagObject E (tagFile E p mt) w
               = Some (Inl (Error (message e @ report_hint (tagFile E p mt))), w1)"
    by (simp add: readTagObject_read_failed)
  from loadActivation_rejects [OF this]
  show "loadActivation E mt (Some p) act w
            = Some (Inl (Error (message e @ ''.'' @ [CHR 0x0A]
                          @ ''*** When you report this, please include the file \"''
                          @ tagFile E p mt @ '' ***\"'')), w1)"
    by (simp add: report_hint_def)
qed

theorem loadActivation_absent_or_empty_witness:
  "readFileAsync (ex_env ''Purge'') ''/other/vortex.deployment.json'' ex_world
     = (Inl (ENOENT ''/other/vortex.deployment.json''),
        record_event (ReadFile ''/other/vortex.deployment.json'') ex_world)
   \<and> code (ENOENT ''/other/vortex.deployment.json'') = Some ''ENOENT''
   \<and> readTagObject (ex_env ''Purge'') ''/other/vortex.deployment.json'' ex_world
     = Some (Inr (Some \<lparr>version = 1, instance' = ''here'', deploymentMethod = Undefined,
                          files = []\<rparr>),
             record_event (ReadFile ''/other/vortex.deployment.json'') ex_world)
   \<and> loadActivation (ex_env ''Purge'') None (Some ''/other'') ex_activator ex_world
     = Some (Inr [], record_event (ReadFile ''/other/vortex.deployment.json'') ex_world)
   \<and> readFileAsync (ex_env ''Purge'') ''/game/vortex.deployment.json''
       (ex_world\<lparr>disk := [''/game/vortex.deployment.json'' \<mapsto> \<lparr>content = [], mtime = 5\<rparr>]\<rparr>)
     = (Inr [], record_event (ReadFile ''/game/vortex.deployment.json'')
         (ex_world\<lparr>disk := [''/game/vortex.deployment.json'' \<mapsto> \<lparr>content = [], mtime = 5\<rparr>]\<rparr>))
   \<and> tagObjectOrEmpty (ex_env ''Purge'') None
     = \<lparr>version = 1, instance' = ''here'', deploymentMethod = Undefined, files = []\<rparr>
   \<and> loadActivation (ex_env ''Purge'') None (Some ''/game'') ex_activator
       (ex_world\<lparr>disk := [''/game/vortex.deployment.json'' \<mapsto> \<lparr>content = [], mtime = 5\<rparr>]\<rparr>)
     = Some (Inr [], record_event (ReadFile ''/game/vortex.deployment.json'')
         (ex_world\<lparr>disk := [''/game/vortex.deployment.json'' \<mapsto> \<lparr>content = [], mtime = 5\<rparr>]\<rparr>))
   \<and> readFileAsync ((ex_env ''Purge'')\<lparr>fault := (\<lambda>op p. Some EPERM)\<rparr>)
       ''/game/vortex.deployment.json'' ex_world
     = (Inl EPERM, record_event (ReadFile ''/game/vortex.deployment.json'') ex_world)
   \<and> code EPERM \<noteq> Some ''ENOENT''
   \<and> loadActivation ((ex_env ''Purge'')\<lparr>fault := (\<lambda>op p. Some EPERM)\<rparr>) None (Some ''/game'')
       ex_activator ex_world
     = Some (Inl (Error (''EPERM: operation not permitted.'' @ [CHR 0x0A]
              @ ''*** When you report this, please include the file \"/game/vortex.deployment.json ***\"'')),
             record_event (ReadFile ''/game/vortex.deployment.json'') ex_world)"
proof -
  let ?E = "ex_env ''Purge''"
  let ?F = "(ex_env ''Purge'')\<lparr>fault := (\<lambda>op p. Some EPERM)\<rparr>"
  let ?w = "ex_world\<lparr>disk := [''/game/vortex.deployment.json'' \<mapsto> \<lparr>content = [], mtime = 5\<rparr>]\<rparr>"
  have t: "tagFile ?E ''/game'' None = ''/game/vortex.deployment.json''"
          "tagFile ?E ''/other'' None = ''/other/vortex.deployment.json''"
          "tagFile ?F ''/game'' None = ''/game/vortex.deployment.json''"
    by (simp_all add: tagFile_def typeTag_def ex_env_def)
  have i: "instanceId ?E = ''here''" "CURRENT_VERSION = 1"
    by (simp_all add: ex_env_def CURRENT_VERSION_def)
  have a: "readFileAsync ?E ''/other/vortex.deployment.json'' ex_world
             = (Inl (ENOENT ''/other/vortex.deployment.json''),
                record_event (ReadFile ''/other/vortex.deployment.json'') ex_world)
           \<and> code (ENOENT ''/other/vortex.deployment.json'') = Some ''ENOENT''"
    by (simp add: readFileAsync_def ex_env_def ex_world_def ENOENT_def Let_def)
  have b: "readFileAsync ?E ''/game/vortex.deployment.json'' ?w
             = (Inr [], record_event (ReadFile ''/game/vortex.deployment.json'') ?w)"
    by (simp add: readFileAsync_def ex_env_def ex_world_def Let_def record_event_def)
  have c: "readFileAsync ?F ''/game/vortex.deployment.json'' ex_world
             = (Inl EPERM, record_event (ReadFile ''/game/vortex.deployment.json'') ex_world)
           \<and> code EPERM \<noteq> Some ''ENOENT''"
    by (simp add: readFileAsync_def ex_env_def EPERM_def Let_def)
  note T1 = loadActivation_absent_or_empty [where E = ?E and p = "''/other''" and mt = None
      and w = ex_world and e = "ENOENT ''/other/vortex.deployment.json''" and act = ex_activator
      and ?w1.0 = "record_event (ReadFile ''/other/vortex.deployment.json'') ex_world",
      THEN conjunct1, unfolded t]
  note T2 = loadActivation_absent_or_empty [where E = ?E and p = "''/game''" and mt = None
      and w = ?w and act = ex_activator
      and ?w1.0 = "record_event (ReadFile ''/game/vortex.deployment.json'') ?w",
      THEN conjunct2, THEN conjunct1, unfolded t]
  note T3 = loadActivation_absent_or_empty [where E = ?F and p = "''/game''" and mt = None
      and w = ex_world and e = EPERM and act = ex_activator
      and ?w1.0 = "record_event (ReadFile ''/game/vortex.deployment.json'') ex_world",
      THEN conjunct2, THEN conjunct2, unfolded t]
  from T1 a have g1: "loadActivation ?E None (Some ''/other'') ex_activator ex_world
     = Some (Inr [], record_event (ReadFile ''/other/vortex.deployment.json'') ex_world)"
    by blast
  from T1 a have "readTagObject ?E ''/other/vortex.deployment.json'' ex_world
     = Some (Inr (Some (emptyManifest (instanceId ?E))),
             record_event (ReadFile ''/other/vortex.deployment.json'') ex_world)
     \<and> emptyManifest (instanceId ?E)
              = \<lparr>version = CURRENT_VERSION, instance' = instanceId ?E,
                 deploymentMethod = Undefined, files = []\<rparr>"
    by blast
  then have g1': "readTagObject ?E ''/other/vortex.deployment.json'' ex_world
     = Some (Inr (Some \<lparr>version = 1, instance' = ''here'', deploymentMethod = Undefined,
                          files = []\<rparr>),
             record_event (ReadFile ''/other/vortex.deployment.json'') ex_world)"
    by (simp add: i)
  from T2 b have g2: "loadActivation ?E None (Some ''/game'') ex_activator ?w
     = Some (Inr [], record_event (ReadFile ''/game/vortex.deployment.json'') ?w)"
    by blast
  from T2 b have "tagObjectOrEmpty ?E None
              = \<lparr>version = CURRENT_VERSION, instance' = instanceId ?E,
                 deploymentMethod = Undefined, files = []\<rparr>"
    by blast
  then have g2': "tagObjectOrEmpty ?E None
     = \<lparr>version = 1, instance' = ''here'', deploymentMethod = Undefined, files = []\<rparr>"
    by (simp add: i)
  from T3 c have "loadActivation ?F None (Some ''/game'') ex_activator ex_world
     = Some (Inl (Error (message EPERM @ ''.'' @ [CHR 0x0A]
                          @ ''*** When you report this, please include the file \"''
                          @ ''/game/vortex.deployment.json'' @ '' ***\"'')),
             record_event (ReadFile ''/game/vortex.deployment.json'') ex_world)"
    by blast
  then have g3: "loadActivation ?F None (Some ''/game'') ex_activator ex_world
     = Some (Inl (Error (''EPERM: operation not permitted.'' @ [CHR 0x0A]
              @ ''*** When you report this, please include the file \"/game/vortex.deployment.json ***\"'')),
             record_event (ReadFile ''/game/vortex.deployment.json'') ex_world)"
    by (simp add: EPERM_def)
  from a b c g1 g1' g2 g2' g3 show ?thesis by blast
qed

subsection \<open>loadActivation: a manifest of another instance\<close>

lemma purgeIsSafe_iff:
  "purgeIsSafe E m =
     (\<not> (\<exists>a. deploymentMethod m \<noteq> Undefined \<and> getActivator E (deploymentMethod m) = Some a
              \<and> \<not> isFallbackPurgeSafe a))"
  by (auto simp add: purgeIsSafe_def split: option.splits)

lemma queryPurge_declined:
  assumes "showDialog E (if safe then QueryPurgeTextSafe else QueryPurgeTextUnsafe) = Inr action"
    and "action \<noteq> ''Purge''"
  shows "queryPurge E b fs safe w
           = (Inl UserCanceled,
              record_event (ShowDialog (if safe then QueryPurgeTextSafe else QueryPurgeTextUnsafe)) w)"
  using assms by (simp add: queryPurge_def Let_def)

lemma queryPurge_confirmed:
  assumes "showDialog E (if safe then QueryPurgeTextSafe else QueryPurgeTextUnsafe) = Inr ''Purge''"
    and "fallbackPurge E b fs
           (record_event (ShowDialog (if safe then QueryPurgeTextSafe else QueryPurgeTextUnsafe)) w)
           = (Inr (), w2)"
  shows "queryPurge E b fs safe w = (Inr (), w2)"
  using assms by (simp add: queryPurge_def Let_def)

lemma resolveTagObject_foreign:
  assumes "instance' m \<noteq> instanceId E" and "files m \<noteq> []"
  shows "resolveTagObject E mt p act (Some m) w =
           (case queryPurge E p (files m) (purgeIsSafe E m) w of
              (Inl err, w1) \<Rightarrow> (Inl err, w1)
            | (Inr u, w1) \<Rightarrow>
                (case saveActivation E mt (instanceId E) p [] (method_id act) w1 of
                   (Inl err, w2) \<Rightarrow> (Inl err, w2)
                 | (Inr u', w2) \<Rightarrow> (Inr [], w2)))"
  using assms by (simp add: resolveTagObject_def tagObjectOrEmpty_def)

lemma resolveTagObject_dialogs:
  assumes "instance' m \<noteq> instanceId E" and "files m \<noteq> []"
  shows "dialogs_shown (snd (resolveTagObject E mt p act (Some m) w))
           = dialogs_shown w
             @ [ShowDialog (if purgeIsSafe E m then QueryPurgeTextSafe else QueryPurgeTextUnsafe)]"
proof -
  let ?t = "if purgeIsSafe E m then QueryPurgeTextSafe else QueryPurgeTextUnsafe"
  obtain r w1 where q: "queryPurge E p (files m) (purgeIsSafe E m) w = (r, w1)"
    by (cases "queryPurge E p (files m) (purgeIsSafe E m) w")
  with queryPurge_dialogs [of E p "files m" "purgeIsSafe E m" w]
  have d1: "dialogs_shown w1 = dialogs_shown w @ [ShowDialog ?t]" by simp
  show ?thesis
  proof (cases r)
    case (Inl err)
    with q d1 show ?thesis by (simp add: resolveTagObject_foreign [OF assms])
  next
    case (Inr u)
    obtain r2 w2 where s: "saveActivation E mt (instanceId E) p [] (method_id act) w1 = (r2, w2)"
      by (cases "saveActivation E mt (instanceId E) p [] (method_id act) w1")
    with saveActivation_dialogs [of E mt "instanceId E" p "[]" "method_id act" w1]
    have "dialogs_shown w2 = dialogs_shown w1" by simp
    with Inr q d1 s show ?thesis
      by (cases r2) (simp_all add: resolveTagObject_foreign [OF assms])
  qed
qed

lemma loadActivation_decoded:
  assumes "readFileAsync E (tagFile E p mt) w = (Inr data, w1)"
    and "readManifest (json_parse E) (format_1 E) data = Some (Inr tagObject)"
  shows "loadActivation E mt (Some p) act w = Some (resolveTagObject E mt p act tagObject w1)"
    and "w1 = record_event (ReadFile (tagFile E p mt)) w"
proof -
  from readTagObject_decoded [OF assms] loadActivation_resolves
  show "loadActivation E mt (Some p) act w = Some (resolveTagObject E mt p act tagObject w1)"
    by simp
  from readFileAsync_world [of E "tagFile E p mt" w] assms(1)
  show "w1 = record_event (ReadFile (tagFile E p mt)) w" by simp
qed

text \<open>
  C4.  For a decoded manifest of another instance with files, \<^verbatim>\<open>loadActivation\<close>
  returns, and the dialogs shown during the call are exactly one.  When the dialog
  resolves with an action other than \<^verbatim>\<open>Purge\<close>, the call rejects with
  \<^verbatim>\<open>UserCanceled\<close>; the disk is as it was, and the only effects are the read of the
  manifest file and the dialog.
\<close>

theorem loadActivation_asks_once_and_decline_keeps_disk:
  assumes "readFileAsync E (tagFile E p mt) w = (Inr data, w1)"
    and "readManifest (json_parse E) (format_1 E) data = Some (Inr (Some m))"
    and "instance' m \<noteq> instanceId E" and "files m \<noteq> []"
  shows "(\<exists>r w' text. loadActivation E mt (Some p) act w = Some (r, w')
            \<and> dialogs_shown w' = dialogs_shown w @ [ShowDialog text])
       \<and> (showDialog E (if purgeIsSafe E m then QueryPurgeTextSafe else QueryPurgeTextUnsafe)
            = Inr action \<and> action \<noteq> ''Purge''
          \<longrightarrow> (\<exists>w'. loadActivation E mt (Some p) act w = Some (Inl UserCanceled, w')
                 \<and> disk w' = disk w
                 \<and> trace w' = trace w @
                     [ReadFile (tagFile E p mt),
                      ShowDialog (if purgeIsSafe E m then QueryPurgeTextSafe
                                  else QueryPurgeTextUnsafe)]))"
proof (intro conjI impI)
  let ?t = "if purgeIsSafe E m then QueryPurgeTextSafe else QueryPurgeTextUnsafe"
  note L = loadActivation_decoded [OF assms(1,2)]
  have d: "dialogs_shown w1 = dialogs_shown w"
    using L(2) by (simp add: dialogs_shown_def trace_record_event)
  obtain r w' where rw: "resolveTagObject E mt p act (Some m) w1 = (r, w')"
    by (cases "resolveTagObject E mt p act (Some m) w1")
  with resolveTagObject_dialogs [OF assms(3,4), of mt p act w1] d
  have "dialogs_shown w' = dialogs_shown w @ [ShowDialog ?t]" by simp
  with L(1) rw
  show "\<exists>r w' text. loadActivation E mt (Some p) act w = Some (r, w')
            \<and> dialogs_shown w' = dialogs_shown w @ [ShowDialog text]"
    by auto
  assume a: "showDialog E ?t = Inr action \<and> action \<noteq> ''Purge''"
  then have "queryPurge E p (files m) (purgeIsSafe E m) w1
                = (Inl UserCanceled, record_event (ShowDialog ?t) w1)"
    by (simp add: queryPurge_declined)
  then have "resolveTagObject E mt p act (Some m) w1
                = (Inl UserCanceled, record_event (ShowDialog ?t) w1)"
    by (simp add: resolveTagObject_foreign [OF assms(3,4)])
  with L
  show "\<exists>w'. loadActivation E mt (Some p) act w = Some (Inl UserCanceled, w')
                 \<and> disk w' = disk w
                 \<and> trace w' = trace w @ [ReadFile (tagFile E p mt), ShowDialog ?t]"
    by (simp add: disk_record_event trace_record_event)
qed

text \<open>The concrete game directory: its manifest is read and decoded.\<close>

lemma ex_tagFile:
  "tagFile (ex_env answer) ''/game'' None = ''/game/vortex.deployment.json''"
  "tagFile ex_env_unsafe ''/game'' None = ''/game/vortex.deployment.json''"
  by (simp_all add: tagFile_def typeTag_def ex_env_def ex_env_unsafe_def)

lemma ex_read:
  "readFileAsync (ex_env answer) (tagFile (ex_env answer) ''/game'' None) ex_world
     = (Inr ''{manifest}'', record_event (ReadFile ''/game/vortex.deployment.json'') ex_world)"
  unfolding ex_tagFile by (simp add: readFileAsync_def ex_env_def ex_world_def Let_def)

lemma ex_upgrade: "upgrade Inr (Val 0) ex_parsed = Some (Inr ex_parsed)"
  by (simp add: upgrade.simps formats_def CURRENT_VERSION_def ex_parsed_def)

lemma ex_repair: "repairManifest ex_parsed = Inr ex_manifest"
  by (simp add: repairManifest_def ex_parsed_def ex_manifest_def ex_file_a_def ex_file_b_def
        ex_file_bad_def)

lemma ex_decoded:
  "readManifest (json_parse (ex_env answer)) (format_1 (ex_env answer)) ''{manifest}''
     = Some (Inr (Some ex_manifest))"
proof -
  have "p_files ex_parsed \<noteq> NoFiles" by (simp add: ex_parsed_def)
  then show ?thesis
    by (simp add: readManifest_def ex_env_def ex_upgrade ex_repair)
qed

lemma ex_foreign: "instance' ex_manifest \<noteq> instanceId (ex_env answer)" "files ex_manifest \<noteq> []"
  by (simp_all add: ex_manifest_def ex_env_def)

lemma ex_safe: "purgeIsSafe (ex_env answer) ex_manifest"
  by (simp add: purgeIsSafe_def ex_manifest_def)

theorem loadActivation_asks_once_and_decline_keeps_disk_witness:
  "readFileAsync (ex_env ''Cancel'') (tagFile (ex_env ''Cancel'') ''/game'' None) ex_world
     = (Inr ''{manifest}'', record_event (ReadFile ''/game/vortex.deployment.json'') ex_world)
   \<and> readManifest (json_parse (ex_env ''Cancel'')) (format_1 (ex_env ''Cancel'')) ''{manifest}''
     = Some (Inr (Some ex_manifest))
   \<and> instance' ex_manifest \<noteq> instanceId (ex_env ''Cancel'') \<and> files ex_manifest \<noteq> []
   \<and> showDialog (ex_env ''Cancel'') QueryPurgeTextSafe = Inr ''Cancel''
   \<and> (\<exists>w'. loadActivation (ex_env ''Cancel'') None (Some ''/game'') ex_activator ex_world
             = Some (Inl UserCanceled, w')
          \<and> disk w' = disk ex_world
          \<and> trace w' = [ReadFile ''/game/vortex.deployment.json'', ShowDialog QueryPurgeTextSafe])"
proof -
  let ?E = "ex_env ''Cancel''"
  have d: "showDialog ?E (if purgeIsSafe ?E ex_manifest then QueryPurgeTextSafe
                          else QueryPurgeTextUnsafe) = Inr ''Cancel'' \<and> ''Cancel'' \<noteq> ''Purge''"
    by (simp add: ex_env_def)
  note T = loadActivation_asks_once_and_decline_keeps_disk
             [OF ex_read ex_decoded ex_foreign, where action = "''Cancel''" and act = ex_activator,
              THEN conjunct2]
  from T d have "\<exists>w'. loadActivation ?E None (Some ''/game'') ex_activator ex_world
             = Some (Inl UserCanceled, w')
          \<and> disk w' = disk ex_world
          \<and> trace w' = trace ex_world @ [ReadFile (tagFile ?E ''/game'' None),
               ShowDialog (if purgeIsSafe ?E ex_manifest then QueryPurgeTextSafe
                           else QueryPurgeTextUnsafe)]"
    by blast
  then have "\<exists>w'. loadActivation ?E None (Some ''/game'') ex_activator ex_world
             = Some (Inl UserCanceled, w')
          \<and> disk w' = disk ex_world
          \<and> trace w' = [ReadFile ''/game/vortex.deployment.json'', ShowDialog QueryPurgeTextSafe]"
    unfolding ex_tagFile by (simp add: ex_safe ex_world_def)
  moreover have "showDialog ?E QueryPurgeTextSafe = Inr ''Cancel''" by (simp add: ex_env_def)
  ultimately show ?thesis using ex_read ex_decoded ex_foreign by blast
qed

text \<open>
  C1, as the claim states it, fails: the manifest of the concrete game directory records
  no deployment method, and the dialog shown is the safe one.
\<close>

theorem prompt_is_safe_without_method:
  "readFileAsync (ex_env ''Cancel'') (tagFile (ex_env ''Cancel'') ''/game'' None) ex_world
     = (Inr ''{manifest}'', record_event (ReadFile ''/game/vortex.deployment.json'') ex_world)
   \<and> readManifest (json_parse (ex_env ''Cancel'')) (format_1 (ex_env ''Cancel'')) ''{manifest}''
     = Some (Inr (Some ex_manifest))
   \<and> instance' ex_manifest \<noteq> instanceId (ex_env ''Cancel'') \<and> files ex_manifest \<noteq> []
   \<and> deploymentMethod ex_manifest = Undefined
   \<and> loadActivation (ex_env ''Cancel'') None (Some ''/game'') ex_activator ex_world
     = Some (Inl UserCanceled,
             record_event (ShowDialog QueryPurgeTextSafe)
               (record_event (ReadFile ''/game/vortex.deployment.json'') ex_world))"
proof -
  let ?E = "ex_env ''Cancel''"
  let ?w1 = "record_event (ReadFile ''/game/vortex.deployment.json'') ex_world"
  have "showDialog ?E (if purgeIsSafe ?E ex_manifest then QueryPurgeTextSafe
                       else QueryPurgeTextUnsafe) = Inr ''Cancel''"
    by (simp add: ex_env_def)
  then have "queryPurge ?E ''/game'' (files ex_manifest) (purgeIsSafe ?E ex_manifest) ?w1
               = (Inl UserCanceled, record_event (ShowDialog QueryPurgeTextSafe) ?w1)"
    using queryPurge_declined [of ?E "purgeIsSafe ?E ex_manifest" "''Cancel''" "''/game''"
            "files ex_manifest" ?w1]
    by (simp add: ex_safe)
  then have "resolveTagObject ?E None ''/game'' ex_activator (Some ex_manifest) ?w1
               = (Inl UserCanceled, record_event (ShowDialog QueryPurgeTextSafe) ?w1)"
    by (simp add: resolveTagObject_foreign [OF ex_foreign])
  with loadActivation_decoded(1) [OF ex_read ex_decoded]
  have "loadActivation ?E None (Some ''/game'') ex_activator ex_world
          = Some (Inl UserCanceled, record_event (ShowDialog QueryPurgeTextSafe) ?w1)"
    by simp
  moreover have "deploymentMethod ex_manifest = Undefined" by (simp add: ex_manifest_def)
  ultimately show ?thesis using ex_read ex_decoded ex_foreign by blast
qed

text \<open>
  C1, amended.  For a decoded manifest of another instance with files, the one dialog
  shown is the unsafe one exactly when the manifest records a deployment method, the
  registry knows it and the method is not marked fallback-purge-safe; in every other
  case (no method recorded, a method the registry does not know, a method marked safe)
  it is the safe one.
\<close>

theorem prompt_is_unsafe_iff_known_unsafe_method:
  assumes "readFileAsync E (tagFile E p mt) w = (Inr data, w1)"
    and "readManifest (json_parse E) (format_1 E) data = Some (Inr (Some m))"
    and "instance' m \<noteq> instanceId E" and "files m \<noteq> []"
  shows "\<exists>r w'. loadActivation E mt (Some p) act w = Some (r, w')
           \<and> dialogs_shown w' = dialogs_shown w @
               [ShowDialog
                  (if (\<exists>a. deploymentMethod m \<noteq> Undefined
                          \<and> getActivator E (deploymentMethod m) = Some a
                          \<and> \<not> isFallbackPurgeSafe a)
                   then QueryPurgeTextUnsafe else QueryPurgeTextSafe)]"
proof -
  note L = loadActivation_decoded [OF assms(1,2)]
  have d: "dialogs_shown w1 = dialogs_shown w"
    using L(2) by (simp add: dialogs_shown_def trace_record_event)
  obtain r w' where rw: "resolveTagObject E mt p act (Some m) w1 = (r, w')"
    by (cases "resolveTagObject E mt p act (Some m) w1")
  with resolveTagObject_dialogs [OF assms(3,4), of mt p act w1] d
  have "dialogs_shown w' = dialogs_shown w @
          [ShowDialog (if purgeIsSafe E m then QueryPurgeTextSafe else QueryPurgeTextUnsafe)]"
    by simp
  then have "dialogs_shown w' = dialogs_shown w @
               [ShowDialog
                  (if (\<exists>a. deploymentMethod m \<noteq> Undefined
                          \<and> getActivator E (deploymentMethod m) = Some a
                          \<and> \<not> isFallbackPurgeSafe a)
                   then QueryPurgeTextUnsafe else QueryPurgeTextSafe)]"
    by (simp add: purgeIsSafe_iff)
  with L(1) [of act] rw show ?thesis by simp
qed

theorem prompt_is_unsafe_iff_known_unsafe_method_witness:
  "readFileAsync ex_env_unsafe (tagFile ex_env_unsafe ''/game'' None) ex_world
     = (Inr ''{manifest}'', record_event (ReadFile ''/game/vortex.deployment.json'') ex_world)
   \<and> readManifest (json_parse ex_env_unsafe) (format_1 ex_env_unsafe) ''{manifest}''
     = Some (Inr (Some (ex_manifest\<lparr>deploymentMethod := Val ''move_activator''\<rparr>)))
   \<and> (\<exists>r w'. loadActivation ex_env_unsafe None (Some ''/game'') ex_activator ex_world = Some (r, w')
          \<and> dialogs_shown w' = [ShowDialog QueryPurgeTextUnsafe])"
proof -
  let ?m = "ex_manifest\<lparr>deploymentMethod := Val ''move_activator''\<rparr>"
  have rd: "readFileAsync ex_env_unsafe (tagFile ex_env_unsafe ''/game'' None) ex_world
     = (Inr ''{manifest}'', record_event (ReadFile ''/game/vortex.deployment.json'') ex_world)"
    unfolding ex_tagFile
    by (simp add: readFileAsync_def ex_env_unsafe_def ex_env_def ex_world_def Let_def)
  have up: "upgrade Inr (Val 0) (ex_parsed\<lparr>p_deploymentMethod := Val ''move_activator''\<rparr>)
              = Some (Inr (ex_parsed\<lparr>p_deploymentMethod := Val ''move_activator''\<rparr>))"
    by (simp add: upgrade.simps formats_def CURRENT_VERSION_def ex_parsed_def)
  have rp: "repairManifest (ex_parsed\<lparr>p_deploymentMethod := Val ''move_activator''\<rparr>) = Inr ?m"
    by (simp add: repairManifest_def ex_parsed_def ex_manifest_def ex_file_a_def ex_file_b_def
          ex_file_bad_def)
  have "p_files (ex_parsed\<lparr>p_deploymentMethod := Val ''move_activator''\<rparr>) \<noteq> NoFiles"
    by (simp add: ex_parsed_def)
  then have dc: "readManifest (json_parse ex_env_unsafe) (format_1 ex_env_unsafe) ''{manifest}''
                   = Some (Inr (Some ?m))"
    by (simp add: readManifest_def ex_env_unsafe_def ex_env_def up rp)
  have fo: "instance' ?m \<noteq> instanceId ex_env_unsafe" "files ?m \<noteq> []"
    by (simp_all add: ex_manifest_def ex_env_unsafe_def ex_env_def)
  have un: "(\<exists>a. deploymentMethod ?m \<noteq> Undefined
               \<and> getActivator ex_env_unsafe (deploymentMethod ?m) = Some a
               \<and> \<not> isFallbackPurgeSafe a)"
    by (simp add: ex_env_unsafe_def ex_env_def)
  from prompt_is_unsafe_iff_known_unsafe_method [OF rd dc fo, of ex_activator] un
  have "\<exists>r w'. loadActivation ex_env_unsafe None (Some ''/game'') ex_activator ex_world = Some (r, w')
          \<and> dialogs_shown w' = dialogs_shown ex_world @ [ShowDialog QueryPurgeTextUnsafe]"
    by simp
  then have "\<exists>r w'. loadActivation ex_env_unsafe None (Some ''/game'') ex_activator ex_world = Some (r, w')
          \<and> dialogs_shown w' = [ShowDialog QueryPurgeTextUnsafe]"
    by (simp add: dialogs_shown_def ex_world_def)
  with rd dc show ?thesis by blast
qed

subsection \<open>loadActivation: the user confirms the purge\<close>

text \<open>
  C7.  For a decoded manifest of another instance with files, when the dialog resolves
  with \<^verbatim>\<open>Purge\<close> and the fallback purge succeeds, \<^verbatim>\<open>loadActivation\<close> calls
  \<^verbatim>\<open>saveActivation\<close> with the current instance id and no files, which (the serialised
  manifest re-parsing) removes the manifest file, and resolves to the empty list.  The
  manifest file is gone afterwards when the removal meets no fault.
\<close>

theorem loadActivation_confirmed_purges_and_saves_empty:
  assumes "readFileAsync E (tagFile E p mt) w = (Inr data, w1)"
    and "readManifest (json_parse E) (format_1 E) data = Some (Inr (Some m))"
    and "instance' m \<noteq> instanceId E" and "files m \<noteq> []"
    and "showDialog E (if purgeIsSafe E m then QueryPurgeTextSafe else QueryPurgeTextUnsafe)
           = Inr ''Purge''"
    and "fallbackPurge E p (files m)
           (record_event (ShowDialog (if purgeIsSafe E m then QueryPurgeTextSafe
                                      else QueryPurgeTextUnsafe)) w1) = (Inr (), w2)"
    and "json_parse E (json_stringify E \<lparr>version = CURRENT_VERSION, instance' = instanceId E,
           deploymentMethod = Val (method_id act), files = []\<rparr>) = Inr reparsed"
  shows "saveActivation E mt (instanceId E) p [] (method_id act) w2
           = (Inr (), snd (removeAsync E (tagFile E p mt) w2))
       \<and> loadActivation E mt (Some p) act w = Some (Inr [], snd (removeAsync E (tagFile E p mt) w2))
       \<and> (fault E RemoveOp (tagFile E p mt) = None
            \<longrightarrow> disk (snd (removeAsync E (tagFile E p mt) w2)) (tagFile E p mt) = None)"
proof (intro conjI impI)
  show s: "saveActivation E mt (instanceId E) p [] (method_id act) w2
           = (Inr (), snd (removeAsync E (tagFile E p mt) w2))"
    using assms(7) by (rule saveActivation_empty)
  have "queryPurge E p (files m) (purgeIsSafe E m) w1 = (Inr (), w2)"
    using assms(5,6) by (rule queryPurge_confirmed)
  with s have "resolveTagObject E mt p act (Some m) w1
                 = (Inr [], snd (removeAsync E (tagFile E p mt) w2))"
    by (simp add: resolveTagObject_foreign [OF assms(3,4)])
  with loadActivation_decoded(1) [OF assms(1,2)]
  show "loadActivation E mt (Some p) act w = Some (Inr [], snd (removeAsync E (tagFile E p mt) w2))"
    by simp
  show "disk (snd (removeAsync E (tagFile E p mt) w2)) (tagFile E p mt) = None"
    if "fault E RemoveOp (tagFile E p mt) = None"
    using that by (rule removeAsync_done)
qed

lemma ex_purge:
  "fallbackPurge (ex_env ''Purge'') ''/game'' (files ex_manifest)
     (record_event (ShowDialog QueryPurgeTextSafe)
        (record_event (ReadFile ''/game/vortex.deployment.json'') ex_world))
   = (Inr (),
      \<lparr>disk = [''/game/vortex.deployment.json'' \<mapsto> \<lparr>content = ''{manifest}'', mtime = 100\<rparr>,
               ''/game/b.esp'' \<mapsto> \<lparr>content = ''B'', mtime = 70\<rparr>],
       trace = [ReadFile ''/game/vortex.deployment.json'', ShowDialog QueryPurgeTextSafe,
                StatFile ''/game/a.esp'', StatFile ''/game/b.esp'', UnlinkFile ''/game/a.esp'']\<rparr>)"
  by (simp add: fallbackPurge_def startStats.simps unlinkMatching.simps fullPathOf_def
        rejectUnlessNotFound_def statAsync_def unlinkAsync_def record_event_def
        ex_env_def ex_world_def ex_manifest_def ex_file_a_def ex_file_b_def Let_def fun_upd_twist)

theorem loadActivation_confirmed_purges_and_saves_empty_witness:
  "readFileAsync (ex_env ''Purge'') (tagFile (ex_env ''Purge'') ''/game'' None) ex_world
     = (Inr ''{manifest}'', record_event (ReadFile ''/game/vortex.deployment.json'') ex_world)
   \<and> readManifest (json_parse (ex_env ''Purge'')) (format_1 (ex_env ''Purge'')) ''{manifest}''
     = Some (Inr (Some ex_manifest))
   \<and> instance' ex_manifest \<noteq> instanceId (ex_env ''Purge'') \<and> files ex_manifest \<noteq> []
   \<and> showDialog (ex_env ''Purge'') QueryPurgeTextSafe = Inr ''Purge''
   \<and> fault (ex_env ''Purge'') RemoveOp ''/game/vortex.deployment.json'' = None
   \<and> loadActivation (ex_env ''Purge'') None (Some ''/game'') ex_activator ex_world
     = Some (Inr [],
         \<lparr>disk = [''/game/b.esp'' \<mapsto> \<lparr>content = ''B'', mtime = 70\<rparr>],
          trace = [ReadFile ''/game/vortex.deployment.json'', ShowDialog QueryPurgeTextSafe,
                   StatFile ''/game/a.esp'', StatFile ''/game/b.esp'', UnlinkFile ''/game/a.esp'',
                   RemoveFile ''/game/vortex.deployment.json'']\<rparr>)"
proof -
  let ?E = "ex_env ''Purge''"
  let ?w2 = "\<lparr>disk = [''/game/vortex.deployment.json'' \<mapsto> \<lparr>content = ''{manifest}'', mtime = 100\<rparr>,
               ''/game/b.esp'' \<mapsto> \<lparr>content = ''B'', mtime = 70\<rparr>],
       trace = [ReadFile ''/game/vortex.deployment.json'', ShowDialog QueryPurgeTextSafe,
                StatFile ''/game/a.esp'', StatFile ''/game/b.esp'', UnlinkFile ''/game/a.esp'']\<rparr>"
  have d: "showDialog ?E (if purgeIsSafe ?E ex_manifest then QueryPurgeTextSafe
                          else QueryPurgeTextUnsafe) = Inr ''Purge''"
    by (simp add: ex_env_def)
  have f: "fallbackPurge ?E ''/game'' (files ex_manifest)
             (record_event (ShowDialog (if purgeIsSafe ?E ex_manifest then QueryPurgeTextSafe
                                        else QueryPurgeTextUnsafe))
                (record_event (ReadFile ''/game/vortex.deployment.json'') ex_world))
           = (Inr (), ?w2)"
    using ex_purge by (simp add: ex_safe)
  have j: "json_parse ?E (json_stringify ?E \<lparr>version = CURRENT_VERSION, instance' = instanceId ?E,
             deploymentMethod = Val (method_id ex_activator), files = []\<rparr>) = Inr ex_parsed"
    by (simp add: ex_env_def)
  have n: "fault ?E RemoveOp ''/game/vortex.deployment.json'' = None"
    by (simp add: ex_env_def)
  have r: "snd (removeAsync ?E (tagFile ?E ''/game'' None) ?w2)
             = \<lparr>disk = [''/game/b.esp'' \<mapsto> \<lparr>content = ''B'', mtime = 70\<rparr>],
                trace = [ReadFile ''/game/vortex.deployment.json'', ShowDialog QueryPurgeTextSafe,
                   StatFile ''/game/a.esp'', StatFile ''/game/b.esp'', UnlinkFile ''/game/a.esp'',
                   RemoveFile ''/game/vortex.deployment.json'']\<rparr>"
    unfolding ex_tagFile
    by (simp add: removeAsync_def ex_env_def record_event_def Let_def fun_upd_twist)
  from loadActivation_confirmed_purges_and_saves_empty [OF ex_read ex_decoded ex_foreign d f j,
         THEN conjunct2, THEN conjunct1]
  have "loadActivation ?E None (Some ''/game'') ex_activator ex_world
          = Some (Inr [], snd (removeAsync ?E (tagFile ?E ''/game'' None) ?w2))" .
  with r have "loadActivation ?E None (Some ''/game'') ex_activator ex_world
     = Some (Inr [],
         \<lparr>disk = [''/game/b.esp'' \<mapsto> \<lparr>content = ''B'', mtime = 70\<rparr>],
          trace = [ReadFile ''/game/vortex.deployment.json'', ShowDialog QueryPurgeTextSafe,
                   StatFile ''/game/a.esp'', StatFile ''/game/b.esp'', UnlinkFile ''/game/a.esp'',
                   RemoveFile ''/game/vortex.deployment.json'']\<rparr>)"
    by simp
  moreover have "showDialog ?E QueryPurgeTextSafe = Inr ''Purge''" by (simp add: ex_env_def)
  ultimately show ?thesis using ex_read ex_decoded ex_foreign n by blast
qed

subsection \<open>readManifest: the upgrade loop\<close>

lemma upgrade_done:
  assumes "\<not> js_less lastVersion CURRENT_VERSION"
  shows "upgrade fm lastVersion parsed = Some (Inr parsed)"
  using assms by (subst upgrade.simps) simp

lemma upgrade_unregistered:
  assumes "js_less lastVersion CURRENT_VERSION" and "js_or (p_version parsed) 1 \<noteq> 1"
  shows "upgrade fm lastVersion parsed
           = Some (Inl (TypeError ''formats[(parsed.version || 1)] is not a function''))"
  using assms by (subst upgrade.simps) (simp add: formats_def)

lemma upgrade_step:
  assumes "js_less lastVersion CURRENT_VERSION" and "js_or (p_version parsed) 1 = 1"
    and "fm parsed = Inr parsed'"
  shows "upgrade fm lastVersion parsed =
           (if p_version parsed' = lastVersion \<and> js_less (p_version parsed') CURRENT_VERSION
            then Some (Inl (Error (''unsupported format upgrade '' @ show_number (p_version parsed')
                                   @ '' -> '' @ show_int CURRENT_VERSION)))
            else upgrade fm (p_version parsed') parsed')"
  using assms by (subst upgrade.simps) (simp add: formats_def)

lemma show_int_1: "show_int CURRENT_VERSION = ''1''"
  by (simp add: show_int_def CURRENT_VERSION_def digits.simps)

lemma readManifest_upgrade_failed:
  assumes "data \<noteq> []" and "parse data = Inr parsed" and "upgrade fm (Val 0) parsed = Some (Inl e)"
  shows "readManifest parse fm data = Some (Inl e)"
  using assms by (simp add: readManifest_def)

lemma formats_registered: "formats fm k = Some g \<longleftrightarrow> k = 1 \<and> g = fm"
  by (auto simp add: formats_def)

text \<open>
  The loop with the function of the baseline format, from the start: it ends for every
  object, after one or two iterations.
\<close>

lemma upgrade_format_1_spec:
  "upgrade format_1_spec (Val 0) parsed =
     Some (if js_or (p_version parsed) 1 \<noteq> 1
           then Inl (TypeError ''formats[(parsed.version || 1)] is not a function'')
           else if js_less (p_version parsed) CURRENT_VERSION
           then Inl (Error (''unsupported format upgrade '' @ show_number (p_version parsed)
                            @ '' -> 1''))
           else Inr parsed)"
proof -
  have l0: "js_less (Val 0) CURRENT_VERSION" by (simp add: CURRENT_VERSION_def)
  have f: "format_1_spec parsed = Inr parsed" by (simp add: format_1_spec_def)
  show ?thesis
  proof (cases "js_or (p_version parsed) 1 = 1")
    case False
    with upgrade_unregistered [OF l0 False, of format_1_spec] show ?thesis by simp
  next
    case True
    note step0 = upgrade_step [where fm = format_1_spec and parsed = parsed and parsed' = parsed
                      and lastVersion = "Val 0", OF l0 True f]
    show ?thesis
    proof (cases "js_less (p_version parsed) CURRENT_VERSION")
      case False
      with step0 upgrade_done [OF False, of format_1_spec parsed] True show ?thesis by simp
    next
      case less: True
      show ?thesis
      proof (cases "p_version parsed = Val 0")
        case True
        with step0 less \<open>js_or (p_version parsed) 1 = 1\<close> show ?thesis
          by (simp add: show_int_1)
      next
        case False
        with step0 have "upgrade format_1_spec (Val 0) parsed
                           = upgrade format_1_spec (p_version parsed) parsed"
          by simp
        also from upgrade_step [where fm = format_1_spec and parsed = parsed and parsed' = parsed
                      and lastVersion = "p_version parsed",
                    OF less \<open>js_or (p_version parsed) 1 = 1\<close> f] less
        have "upgrade format_1_spec (p_version parsed) parsed
                = Some (Inl (Error (''unsupported format upgrade '' @ show_number (p_version parsed)
                                    @ '' -> 1'')))"
          by (simp add: show_int_1)
        finally show ?thesis using less \<open>js_or (p_version parsed) 1 = 1\<close> by simp
      qed
    qed
  qed
qed

lemma readManifest_format_1_spec:
  assumes "data \<noteq> []" and "parse data = Inr parsed"
  shows "readManifest parse format_1_spec data =
           (if js_or (p_version parsed) 1 \<noteq> 1
            then Some (Inl (TypeError ''formats[(parsed.version || 1)] is not a function''))
            else if js_less (p_version parsed) CURRENT_VERSION
            then Some (Inl (Error (''unsupported format upgrade '' @ show_number (p_version parsed)
                                   @ '' -> 1'')))
            else (case repairManifest (if p_files parsed = NoFiles then parsed\<lparr>p_files := Files []\<rparr>
                                       else parsed) of
                    Inl e \<Rightarrow> Some (Inl e)
                  | Inr m \<Rightarrow> Some (Inr (Some m))))"
  using assms by (simp add: readManifest_def upgrade_format_1_spec Let_def)

text \<open>
  C6.  The decode of a document, with the function of the baseline format registered
  for version \<^verbatim>\<open>1\<close>.  It always returns: the loop does not run for ever.  The first
  function applied is the one registered for the declared version of the object,
  \<^verbatim>\<open>1\<close> when the version is absent; an object without a version or with version
  \<^verbatim>\<open>1\<close> goes through the function once and on to the repair.  That function returns the
  object it is given, so the version never increases: whenever the function registered
  for the declared version produces an object whose version is still below the current
  one, the decode fails with the unsupported-format-upgrade error, and a manifest is
  accepted only when its version is not below the current one.  In any iteration of the
  loop, for any registered function, a produced version equal to the last one seen while
  below the current one throws that error.
\<close>

theorem readManifest_stalled_upgrade_is_unsupported:
  assumes "data \<noteq> []" and "parse data = Inr parsed"
  shows "(\<exists>r. readManifest parse format_1_spec data = Some r)
       \<and> (formats format_1_spec (js_or (p_version parsed) 1) = Some fm \<and> fm parsed = Inr parsed'
            \<and> js_less (p_version parsed') CURRENT_VERSION
            \<longrightarrow> readManifest parse format_1_spec data
                  = Some (Inl (Error (''unsupported format upgrade '' @ show_number (p_version parsed')
                                      @ '' -> 1''))))
       \<and> (readManifest parse format_1_spec data = Some (Inr (Some m))
            \<longrightarrow> \<not> js_less (p_version parsed) CURRENT_VERSION)
       \<and> (p_version parsed = Undefined \<or> p_version parsed = Val 1
            \<longrightarrow> formats format_1_spec (js_or (p_version parsed) 1) = Some format_1_spec
                \<and> readManifest parse format_1_spec data
                  = (case repairManifest (if p_files parsed = NoFiles
                                          then parsed\<lparr>p_files := Files []\<rparr> else parsed) of
                       Inl e \<Rightarrow> Some (Inl e)
                     | Inr m \<Rightarrow> Some (Inr (Some m))))
       \<and> (js_less lastVersion CURRENT_VERSION
            \<and> formats g (js_or (p_version q) 1) = Some fm \<and> fm q = Inr q'
            \<and> p_version q' = lastVersion
            \<longrightarrow> upgrade g lastVersion q
                  = Some (Inl (Error (''unsupported format upgrade '' @ show_number lastVersion
                                      @ '' -> 1''))))"
proof (intro conjI impI)
  note R = readManifest_format_1_spec [where parse = parse and data = data and parsed = parsed,
             OF assms]
  show "\<exists>r. readManifest parse format_1_spec data = Some r"
    unfolding R by (simp split: sum.splits)
  show "readManifest parse format_1_spec data
                  = Some (Inl (Error (''unsupported format upgrade '' @ show_number (p_version parsed')
                                      @ '' -> 1'')))"
    if a: "formats format_1_spec (js_or (p_version parsed) 1) = Some fm \<and> fm parsed = Inr parsed'
            \<and> js_less (p_version parsed') CURRENT_VERSION"
  proof -
    from a have k: "js_or (p_version parsed) 1 = 1" and "fm = format_1_spec"
      by (simp_all add: formats_registered)
    with a have "parsed' = parsed" by (simp add: format_1_spec_def)
    with a k show ?thesis unfolding R by simp
  qed
  show "\<not> js_less (p_version parsed) CURRENT_VERSION"
    if a: "readManifest parse format_1_spec data = Some (Inr (Some m))"
    using a unfolding R by (simp split: if_splits)
  show "formats format_1_spec (js_or (p_version parsed) 1) = Some format_1_spec"
    if a: "p_version parsed = Undefined \<or> p_version parsed = Val 1"
    using a by (auto simp add: formats_def)
  show "readManifest parse format_1_spec data
                  = (case repairManifest (if p_files parsed = NoFiles
                                          then parsed\<lparr>p_files := Files []\<rparr> else parsed) of
                       Inl e \<Rightarrow> Some (Inl e)
                     | Inr m \<Rightarrow> Some (Inr (Some m)))"
    if a: "p_version parsed = Undefined \<or> p_version parsed = Val 1"
    using a unfolding R by (auto simp add: CURRENT_VERSION_def)
  show "upgrade g lastVersion q
                  = Some (Inl (Error (''unsupported format upgrade '' @ show_number lastVersion
                                      @ '' -> 1'')))"
    if a: "js_less lastVersion CURRENT_VERSION
            \<and> formats g (js_or (p_version q) 1) = Some fm \<and> fm q = Inr q'
            \<and> p_version q' = lastVersion"
  proof -
    from a have k: "js_or (p_version q) 1 = 1" and "fm = g" by (simp_all add: formats_registered)
    with a upgrade_step [of lastVersion q g q'] show ?thesis by (simp add: show_int_1)
  qed
qed

theorem readManifest_stalled_upgrade_is_unsupported_witness:
  "readManifest (\<lambda>data. Inr (ex_parsed\<lparr>p_version := Val 0\<rparr>)) format_1_spec ''{manifest}''
     = Some (Inl (Error ''unsupported format upgrade 0 -> 1''))
   \<and> readManifest (\<lambda>data. Inr (ex_parsed\<lparr>p_version := Null\<rparr>)) format_1_spec ''{manifest}''
     = Some (Inl (Error ''unsupported format upgrade null -> 1''))
   \<and> readManifest (\<lambda>data. Inr ex_parsed) format_1_spec ''{manifest}'' = Some (Inr (Some ex_manifest))
   \<and> readManifest (\<lambda>data. Inr (ex_parsed\<lparr>p_version := Undefined\<rparr>)) format_1_spec ''{manifest}''
     = Some (Inr (Some ex_manifest))
   \<and> upgrade format_1_spec Null (ex_parsed\<lparr>p_version := Null\<rparr>)
     = Some (Inl (Error ''unsupported format upgrade null -> 1''))"
proof -
  have d: "''{manifest}'' \<noteq> []" by simp
  have l: "js_less (Val 0) CURRENT_VERSION" "js_less Null CURRENT_VERSION"
    by (simp_all add: CURRENT_VERSION_def)
  let ?z = "ex_parsed\<lparr>p_version := Val 0\<rparr>"
  let ?n = "ex_parsed\<lparr>p_version := Null\<rparr>"
  let ?u = "ex_parsed\<lparr>p_version := Undefined\<rparr>"
  have pz: "(\<lambda>data. Inr ?z) ''{manifest}'' = (Inr ?z :: error + parsed_manifest)"
    and pn: "(\<lambda>data. Inr ?n) ''{manifest}'' = (Inr ?n :: error + parsed_manifest)"
    and pu: "(\<lambda>data. Inr ?u) ''{manifest}'' = (Inr ?u :: error + parsed_manifest)"
    and p1: "(\<lambda>data. Inr ex_parsed) ''{manifest}'' = (Inr ex_parsed :: error + parsed_manifest)"
    by simp_all
  have rz: "formats format_1_spec (js_or (p_version ?z) 1) = Some format_1_spec
              \<and> format_1_spec ?z = Inr ?z \<and> js_less (p_version ?z) CURRENT_VERSION"
    and rn: "formats format_1_spec (js_or (p_version ?n) 1) = Some format_1_spec
              \<and> format_1_spec ?n = Inr ?n \<and> js_less (p_version ?n) CURRENT_VERSION"
    by (simp_all add: formats_def format_1_spec_def CURRENT_VERSION_def)
  from readManifest_stalled_upgrade_is_unsupported [where parse = "\<lambda>data. Inr ?z"
         and data = "''{manifest}''" and parsed = ?z and fm = format_1_spec and parsed' = ?z,
         OF d pz, THEN conjunct2, THEN conjunct1] rz
  have g1: "readManifest (\<lambda>data. Inr ?z) format_1_spec ''{manifest}''
              = Some (Inl (Error ''unsupported format upgrade 0 -> 1''))"
    by (simp add: show_int_def digits.simps)
  from readManifest_stalled_upgrade_is_unsupported [where parse = "\<lambda>data. Inr ?n"
         and data = "''{manifest}''" and parsed = ?n and fm = format_1_spec and parsed' = ?n,
         OF d pn, THEN conjunct2, THEN conjunct1] rn
  have g2: "readManifest (\<lambda>data. Inr ?n) format_1_spec ''{manifest}''
              = Some (Inl (Error ''unsupported format upgrade null -> 1''))"
    by simp
  have rep: "repairManifest ex_parsed = Inr ex_manifest"
            "repairManifest ?u = Inr ex_manifest"
    by (simp_all add: repairManifest_def ex_parsed_def ex_manifest_def ex_file_a_def ex_file_b_def
          ex_file_bad_def CURRENT_VERSION_def)
  have nf: "p_files ex_parsed \<noteq> NoFiles" "p_files ?u \<noteq> NoFiles" by (simp_all add: ex_parsed_def)
  have v1: "p_version ex_parsed = Undefined \<or> p_version ex_parsed = Val 1"
    and vu: "p_version ?u = Undefined \<or> p_version ?u = Val 1"
    by (simp_all add: ex_parsed_def)
  from readManifest_stalled_upgrade_is_unsupported [where parse = "\<lambda>data. Inr ex_parsed"
         and data = "''{manifest}''" and parsed = ex_parsed, OF d p1,
         THEN conjunct2, THEN conjunct2, THEN conjunct2, THEN conjunct1] v1
  have "readManifest (\<lambda>data. Inr ex_parsed) format_1_spec ''{manifest}''
          = (case repairManifest (if p_files ex_parsed = NoFiles
                                  then ex_parsed\<lparr>p_files := Files []\<rparr> else ex_parsed) of
               Inl e \<Rightarrow> Some (Inl e)
             | Inr m \<Rightarrow> Some (Inr (Some m)))"
    by blast
  with nf rep have g3: "readManifest (\<lambda>data. Inr ex_parsed) format_1_spec ''{manifest}''
                          = Some (Inr (Some ex_manifest))"
    by simp
  from readManifest_stalled_upgrade_is_unsupported [where parse = "\<lambda>data. Inr ?u"
         and data = "''{manifest}''" and parsed = ?u, OF d pu,
         THEN conjunct2, THEN conjunct2, THEN conjunct2, THEN conjunct1] vu
  have "readManifest (\<lambda>data. Inr ?u) format_1_spec ''{manifest}''
          = (case repairManifest (if p_files ?u = NoFiles
                                  then ?u\<lparr>p_files := Files []\<rparr> else ?u) of
               Inl e \<Rightarrow> Some (Inl e)
             | Inr m \<Rightarrow> Some (Inr (Some m)))"
    by blast
  with nf rep have g4: "readManifest (\<lambda>data. Inr ?u) format_1_spec ''{manifest}''
                          = Some (Inr (Some ex_manifest))"
    by simp
  have rl: "js_less Null CURRENT_VERSION
            \<and> formats format_1_spec (js_or (p_version ?n) 1) = Some format_1_spec
            \<and> format_1_spec ?n = Inr ?n \<and> p_version ?n = Null"
    by (simp add: formats_def format_1_spec_def CURRENT_VERSION_def)
  from readManifest_stalled_upgrade_is_unsupported [where parse = "\<lambda>data. Inr ex_parsed"
         and data = "''{manifest}''" and parsed = ex_parsed and lastVersion = Null
         and g = format_1_spec and q = ?n and fm = format_1_spec and q' = ?n, OF d p1,
         THEN conjunct2, THEN conjunct2, THEN conjunct2, THEN conjunct2] rl
  have g5: "upgrade format_1_spec Null ?n = Some (Inl (Error ''unsupported format upgrade null -> 1''))"
    by simp
  from g1 g2 g3 g4 g5 show ?thesis by blast
qed

end
